theory Spec2Isabelle
  imports
    Main
    "HOL-Library.Multiset"
    "HOL-Library.Sublist"
    "HOL-Library.Char_ord"
    "HOL-Library.List_Lexorder"
    "HOL-Library.Product_Lexorder"
begin

section \<open>Data frames\<close>

text \<open>
  The dashboard (\<^verbatim>\<open>fbi_crime_data_analysis_app.py\<close>) keeps every CSV file as a pandas
  data frame. A frame is modelled by its column labels and its rows, each row holding one
  cell per column. A cell is a number, a text, or the missing value that \<^verbatim>\<open>read_csv\<close>
  stores for an empty field (NaN). Counts are whole numbers. The frame's row labels (its
  index) play no part in the program and are left out.
\<close>

datatype cell = Num int | Str string | NaN

record table =
  columns :: "string list"
  rows :: "cell list list"

text \<open>Every frame pandas builds is rectangular.\<close>

definition rectangular :: "table \<Rightarrow> bool" where
  "rectangular frame \<longleftrightarrow> list_all (\<lambda>r. length r = length (columns frame)) (rows frame)"

text \<open>Position of a column label (\<^verbatim>\<open>columns.get_loc\<close>), if the frame has the column.\<close>

fun get_loc :: "string list \<Rightarrow> string \<Rightarrow> nat option" where
  "get_loc [] c = None"
| "get_loc (x # xs) c = (if x = c then Some 0 else map_option Suc (get_loc xs c))"

definition column :: "table \<Rightarrow> nat \<Rightarrow> cell list" where
  "column frame j = map (\<lambda>r. r ! j) (rows frame)"

text \<open>The sum of a column or of a row counts its numeric cells (pandas skips NaN).\<close>

fun cell_num :: "cell \<Rightarrow> int" where
  "cell_num (Num n) = n"
| "cell_num (Str s) = 0"
| "cell_num NaN = 0"

definition numeric_sum :: "cell list \<Rightarrow> int" where
  "numeric_sum cs = sum_list (map cell_num cs)"

subsection \<open>\<^verbatim>\<open>DataFrame.melt\<close>\<close>

text \<open>
  \<^verbatim>\<open>df.melt(var_name=..., value_name=...)\<close> without identifier columns unpivots every
  column: the result has the two columns \<^verbatim>\<open>var_name\<close> and \<^verbatim>\<open>value_name\<close>, and goes through
  the columns of the frame from left to right, listing for each column one row per row of
  the frame, top to bottom.
\<close>

definition melt :: "table \<Rightarrow> string \<Rightarrow> string \<Rightarrow> table" where
  "melt frame var_name value_name =
     \<lparr>columns = [var_name, value_name],
      rows = concat (map (\<lambda>j. map (\<lambda>r. [Str (columns frame ! j), r ! j]) (rows frame))
                         [0..<length (columns frame)])\<rparr>"

text \<open>Python's \<^verbatim>\<open>sub in s\<close> on strings.\<close>

fun str_contains :: "string \<Rightarrow> string \<Rightarrow> bool" where
  "str_contains sub [] = (sub = [])"
| "str_contains sub (c # cs) = (prefix sub (c # cs) \<or> str_contains sub cs)"

subsection \<open>\<^verbatim>\<open>DataFrame.sort_values\<close> and \<^verbatim>\<open>DataFrame.head\<close>\<close>

text \<open>
  Python compares two numbers and two texts (by code points, lexicographically). It has no
  order between a number and a text, and every comparison with NaN is false.
\<close>

fun cell_le :: "cell \<Rightarrow> cell \<Rightarrow> bool" where
  "cell_le (Num a) (Num b) = (a \<le> b)"
| "cell_le (Str s) (Str t) = (s \<le> t)"
| "cell_le x y = False"

fun is_num :: "cell \<Rightarrow> bool" where
  "is_num (Num n) = True"
| "is_num c = False"

fun is_str :: "cell \<Rightarrow> bool" where
  "is_str (Str s) = True"
| "is_str c = False"

fun is_nan :: "cell \<Rightarrow> bool" where
  "is_nan NaN = True"
| "is_nan c = False"

text \<open>A column that holds numbers and texts cannot be sorted: the comparison raises.\<close>

definition mixed :: "cell list \<Rightarrow> bool" where
  "mixed ks \<longleftrightarrow> list_ex is_num ks \<and> list_ex is_str ks"

text \<open>
  The program calls \<^verbatim>\<open>sort_values(by=y, ascending=False)\<close> and leaves \<^verbatim>\<open>kind\<close> at its
  default, \<^verbatim>\<open>'quicksort'\<close>, which pandas hands to \<^verbatim>\<open>numpy.argsort\<close>. That routine is not
  part of the program; it is a parameter of the model. What numpy promises of it is that,
  on keys that can be compared, it returns the positions of the keys in ascending order of
  the keys; for the default kind it promises nothing about the order of equal keys.
\<close>

type_synonym argsort = "cell list \<Rightarrow> nat list"

definition argsort_ok :: "argsort \<Rightarrow> bool" where
  "argsort_ok a \<longleftrightarrow>
     (\<forall>ks. \<not> list_ex is_nan ks \<and> \<not> mixed ks \<longrightarrow>
        mset (a ks) = mset [0..<length ks] \<and> sorted_wrt cell_le (map (\<lambda>i. ks ! i) (a ks)))"

text \<open>
  \<^verbatim>\<open>pandas.core.sorting.nargsort\<close> with \<^verbatim>\<open>ascending=False\<close> and the default
  \<^verbatim>\<open>na_position='last'\<close>: the positions of the missing keys are set aside, the other keys
  are reversed, sorted and reversed again, and the missing ones are appended in their
  original order.
\<close>

definition nargsort :: "argsort \<Rightarrow> cell list \<Rightarrow> nat list" where
  "nargsort a items =
     (let idx = [0..<length items];
          non_nan_idx = rev (filter (\<lambda>i. \<not> is_nan (items ! i)) idx);
          nan_idx = filter (\<lambda>i. is_nan (items ! i)) idx;
          non_nans = map (\<lambda>i. items ! i) non_nan_idx;
          indexer = map (\<lambda>j. non_nan_idx ! j) (a non_nans)
      in rev indexer @ nan_idx)"

datatype exn =
    FileNotFoundError string
  | OtherReadError string
  | KeyError string
  | TypeError
  | ValueError string

definition sort_values :: "argsort \<Rightarrow> table \<Rightarrow> string \<Rightarrow> exn + table" where
  "sort_values a df y =
     (case get_loc (columns df) y of
        None \<Rightarrow> Inl (KeyError y)
      | Some j \<Rightarrow>
          if mixed (column df j) then Inl TypeError
          else Inr (df\<lparr>rows := map (\<lambda>i. rows df ! i) (nargsort a (column df j))\<rparr>))"

definition head :: "table \<Rightarrow> nat \<Rightarrow> table" where
  "head df n = df\<lparr>rows := take n (rows df)\<rparr>"

text \<open>
  Line 86 of the program, the data preparation of \<^verbatim>\<open>plot_bar_chart\<close>:
  \<^verbatim>\<open>df.sort_values(by=y, ascending=False).head(20)\<close>.
\<close>

definition ranked :: "argsort \<Rightarrow> table \<Rightarrow> string \<Rightarrow> exn + table" where
  "ranked a df y = (case sort_values a df y of Inl e \<Rightarrow> Inl e | Inr s \<Rightarrow> Inr (head s 20))"

text \<open>
  The input positions of the rows that the ranking keeps, in the order of the output: the
  first twenty positions of the sorted order of column \<open>j\<close>.
\<close>

definition chosen :: "argsort \<Rightarrow> table \<Rightarrow> nat \<Rightarrow> nat list" where
  "chosen a df j = take 20 (nargsort a (column df j))"

text \<open>
  The order in which the ranking leaves the counts: a missing count is below everything,
  and two present counts compare as Python compares them.
\<close>

fun count_ge :: "cell \<Rightarrow> cell \<Rightarrow> bool" where
  "count_ge x NaN = True"
| "count_ge NaN y = False"
| "count_ge x y = cell_le y x"

text \<open>
  Two sorting routines that meet the promise of \<^verbatim>\<open>numpy.argsort\<close>: one keeps equal keys
  in their order (as \<^verbatim>\<open>kind='stable'\<close> does), the other does not. Both sort the positions
  by a key that orders numbers among themselves and texts among themselves.
\<close>

fun cell_key :: "cell \<Rightarrow> int \<times> string" where
  "cell_key (Num n) = (n, [])"
| "cell_key (Str s) = (0, s)"
| "cell_key NaN = (0, [])"

definition stable_argsort :: argsort where
  "stable_argsort ks = sort_key (\<lambda>i. cell_key (ks ! i)) [0..<length ks]"


section \<open>The program\<close>

text \<open>
  Data frames are objects: a variable and a dictionary entry hold a reference to a frame,
  and the frames live in a store, addressed by their position. Every pandas call of the
  program (\<^verbatim>\<open>read_csv\<close>, \<^verbatim>\<open>melt\<close>, \<^verbatim>\<open>sort_values\<close> without \<^verbatim>\<open>inplace\<close>, \<^verbatim>\<open>head\<close>) returns
  a new frame. A reference is the position of a frame that has been made, so it always
  points into the store. Besides the store, the world holds what Streamlit has drawn so
  far and the paths the program has asked \<^verbatim>\<open>read_csv\<close> to open. A statement either returns
  a value or raises, and leaves a new world.
\<close>

datatype figure =
    Bar table string string string string
  | Pie table string string string

datatype widget =
    Header string
  | Caption string
  | Subheader string
  | ErrorBox string
  | WarningBox string
  | PlotlyChart figure
  | DataFrame table bool

record world =
  heap :: "table list"
  screen :: "widget list"
  opened :: "string list"

datatype 'a outcome = Returned 'a | Raised exn

type_synonym 'a action = "world \<Rightarrow> 'a outcome \<times> world"

definition return :: "'a \<Rightarrow> 'a action" where
  "return x w = (Returned x, w)"

definition raise :: "exn \<Rightarrow> 'a action" where
  "raise e w = (Raised e, w)"

definition and_then :: "'a action \<Rightarrow> ('a \<Rightarrow> 'b action) \<Rightarrow> 'b action" where
  "and_then m f w = (case m w of (Returned x, w1) \<Rightarrow> f x w1 | (Raised e, w1) \<Rightarrow> (Raised e, w1))"

definition new_frame :: "table \<Rightarrow> nat action" where
  "new_frame t w = (Returned (length (heap w)), w\<lparr>heap := heap w @ [t]\<rparr>)"

definition frame_at :: "world \<Rightarrow> nat \<Rightarrow> table" where
  "frame_at w df = heap w ! df"

definition emit :: "widget \<Rightarrow> unit action" where
  "emit x w = (Returned (), w\<lparr>screen := screen w @ [x]\<rparr>)"

subsection \<open>Library calls on frame objects\<close>

text \<open>
  What \<^verbatim>\<open>read_csv\<close> finds at a path: no file, a file it cannot read as a table (it raises
  some exception other than \<^verbatim>\<open>FileNotFoundError\<close>, with the given message), or a table.
\<close>

datatype disk_file = Absent | Unreadable string | Csv table

type_synonym filesystem = "string \<Rightarrow> disk_file"

definition read_csv :: "filesystem \<Rightarrow> string \<Rightarrow> nat action" where
  "read_csv fs path w =
     (let w1 = w\<lparr>opened := opened w @ [path]\<rparr>
      in case fs path of
           Absent \<Rightarrow> (Raised (FileNotFoundError path), w1)
         | Unreadable msg \<Rightarrow> (Raised (OtherReadError msg), w1)
         | Csv t \<Rightarrow> new_frame t w1)"

text \<open>
  \<^verbatim>\<open>DataFrame.melt\<close> refuses (pandas from version 2.0 on) a \<^verbatim>\<open>value_name\<close> that is already
  the label of a column of the frame, with a \<^verbatim>\<open>ValueError\<close>.
\<close>

definition value_name_error :: "string \<Rightarrow> exn" where
  "value_name_error value_name =
     ValueError (''value_name ('' @ value_name
                 @ '') cannot match an element in the DataFrame columns.'')"

definition df_melt :: "nat \<Rightarrow> string \<Rightarrow> string \<Rightarrow> nat action" where
  "df_melt df var_name value_name w =
     (if value_name \<in> set (columns (frame_at w df))
      then (Raised (value_name_error value_name), w)
      else new_frame (melt (frame_at w df) var_name value_name) w)"

definition df_sort_values :: "argsort \<Rightarrow> nat \<Rightarrow> string \<Rightarrow> nat action" where
  "df_sort_values a df y w =
     (case sort_values a (frame_at w df) y of
        Inl e \<Rightarrow> (Raised e, w)
      | Inr s \<Rightarrow> new_frame s w)"

definition df_head :: "nat \<Rightarrow> nat \<Rightarrow> nat action" where
  "df_head df n w = new_frame (head (frame_at w df) n) w"

text \<open>
  \<^verbatim>\<open>px.bar\<close> and \<^verbatim>\<open>px.pie\<close> read the frame and build a figure from its content; they raise
  a \<^verbatim>\<open>ValueError\<close> when a column they are given is not in the frame.
\<close>

definition px_bar :: "nat \<Rightarrow> string \<Rightarrow> string \<Rightarrow> string \<Rightarrow> string \<Rightarrow> figure action" where
  "px_bar df x y color title w =
     (if list_all (\<lambda>c. c \<in> set (columns (frame_at w df))) [x, y, color]
      then (Returned (Bar (frame_at w df) x y color title), w)
      else (Raised (ValueError ''not the name of a column''), w))"

definition px_pie :: "nat \<Rightarrow> string \<Rightarrow> string \<Rightarrow> string \<Rightarrow> figure action" where
  "px_pie df names vals title w =
     (if list_all (\<lambda>c. c \<in> set (columns (frame_at w df))) [names, vals]
      then (Returned (Pie (frame_at w df) names vals title), w)
      else (Raised (ValueError ''not the name of a column''), w))"

definition st_plotly_chart :: "figure \<Rightarrow> unit action" where
  "st_plotly_chart fig = emit (PlotlyChart fig)"

text \<open>\<^verbatim>\<open>st.dataframe\<close>; the flag says whether the maximum of each column is highlighted.\<close>

definition st_dataframe :: "nat \<Rightarrow> bool \<Rightarrow> unit action" where
  "st_dataframe df highlight_max w = emit (DataFrame (frame_at w df) highlight_max) w"

text \<open>\<^verbatim>\<open>os.path.join\<close> of a directory and a file name.\<close>

definition path_join :: "string \<Rightarrow> string \<Rightarrow> string" where
  "path_join dir name =
     (if dir = [] then name
      else if last dir = CHR ''/'' then dir @ name
      else dir @ ''/'' @ name)"

text \<open>A dictionary keeps its keys in insertion order; \<^verbatim>\<open>d[k] = v\<close> and \<^verbatim>\<open>d[k]\<close>.\<close>

fun dict_set :: "(string \<times> 'v) list \<Rightarrow> string \<Rightarrow> 'v \<Rightarrow> (string \<times> 'v) list" where
  "dict_set [] k v = [(k, v)]"
| "dict_set ((k', v') # d) k v = (if k' = k then (k, v) # d else (k', v') # dict_set d k v)"

definition dict_get :: "(string \<times> nat) list \<Rightarrow> string \<Rightarrow> nat action" where
  "dict_get d k = (case map_of d k of None \<Rightarrow> raise (KeyError k) | Some v \<Rightarrow> return v)"

subsection \<open>\<^verbatim>\<open>load_data\<close>\<close>

text \<open>
  The directory of the script is the parameter \<open>base_dir\<close>. The decorator
  \<^verbatim>\<open>st.cache_data\<close> only spares later calls and is left out, as are the pictographs in
  the program's messages.
\<close>

definition files :: "(string \<times> string) list" where
  "files =
     [(''offense_linked'', ''Offense Linked to Another Offense_09-30-2025.csv''),
      (''weapon_type'', ''Type of Weapon Involved by Offense_09-30-2025.csv''),
      (''victim_relationship'', ''Victim's Relationship to Offender_09-30-2025.csv''),
      (''location_type'', ''Location Type_09-30-2025.csv''),
      (''victim_ethnicity'', ''Victim ethnicity_09-30-2025.csv''),
      (''offender_ethnicity'', ''Offender ethnicity_09-30-2025.csv''),
      (''victim_race'', ''Victim race_09-30-2025.csv''),
      (''offender_race'', ''Offender race_09-30-2025.csv''),
      (''victim_sex'', ''Victim sex_09-30-2025.csv''),
      (''offender_sex'', ''Offender sex_09-30-2025.csv'')]"

text \<open>The body of the \<^verbatim>\<open>try\<close> block up to the frame that is stored under the key.\<close>

definition read_table :: "filesystem \<Rightarrow> string \<Rightarrow> string \<Rightarrow> string \<Rightarrow> nat action" where
  "read_table fs base_dir key filename =
     and_then (read_csv fs (path_join base_dir filename))
       (\<lambda>df. if str_contains ''sex'' key then df_melt df ''Category'' ''Count'' else return df)"

fun is_file_not_found :: "exn \<Rightarrow> bool" where
  "is_file_not_found (FileNotFoundError p) = True"
| "is_file_not_found e = False"

text \<open>
  The \<^verbatim>\<open>for\<close> loop over the entries of \<^verbatim>\<open>files\<close>, with the dictionary \<^verbatim>\<open>data\<close> built so
  far. Only \<^verbatim>\<open>FileNotFoundError\<close> is caught; any other exception (of \<^verbatim>\<open>read_csv\<close> or of
  \<^verbatim>\<open>melt\<close>) leaves the function.
\<close>

fun load_loop ::
  "filesystem \<Rightarrow> string \<Rightarrow> (string \<times> string) list \<Rightarrow> (string \<times> nat) list
     \<Rightarrow> (string \<times> nat) list option action" where
  "load_loop fs base_dir [] data w = (Returned (Some data), w)"
| "load_loop fs base_dir ((key, filename) # rest) data w =
     (case read_table fs base_dir key filename w of
        (Returned df, w1) \<Rightarrow> load_loop fs base_dir rest (dict_set data key df) w1
      | (Raised e, w1) \<Rightarrow>
          if is_file_not_found e
          then and_then (emit (ErrorBox (''File not found: '' @ filename))) (\<lambda>_. return None) w1
          else (Raised e, w1))"

definition load_data :: "filesystem \<Rightarrow> string \<Rightarrow> (string \<times> nat) list option action" where
  "load_data fs base_dir = load_loop fs base_dir files []"

subsection \<open>The chart helpers\<close>

text \<open>
  The arguments \<open>x\<close>, \<open>y\<close> and \<open>color\<close> have the defaults \<^verbatim>\<open>"key"\<close>, \<^verbatim>\<open>"value"\<close> and
  \<^verbatim>\<open>"key"\<close>, which every call of the program uses. \<^verbatim>\<open>fig.update_layout\<close> and
  \<^verbatim>\<open>fig.update_traces\<close> change only the looks of a figure and are left out.
\<close>

definition plot_bar_chart ::
  "argsort \<Rightarrow> nat \<Rightarrow> string \<Rightarrow> string \<Rightarrow> string \<Rightarrow> string \<Rightarrow> unit action" where
  "plot_bar_chart a df title x y color =
     and_then (df_sort_values a df y) (\<lambda>sorted_df.
     and_then (df_head sorted_df 20) (\<lambda>df.
     and_then (px_bar df x y color title) (\<lambda>fig.
     and_then (st_plotly_chart fig) (\<lambda>_.
     st_dataframe df True))))"

definition plot_pie_chart :: "nat \<Rightarrow> string \<Rightarrow> unit action" where
  "plot_pie_chart df title =
     and_then (px_pie df ''Category'' ''Count'' title) (\<lambda>fig.
     and_then (st_plotly_chart fig) (\<lambda>_.
     st_dataframe df False))"

subsection \<open>The dashboard\<close>


text \<open>A chart with the default columns of \<^verbatim>\<open>plot_bar_chart\<close>, of the frame stored under a key.\<close>

definition bar_of :: "argsort \<Rightarrow> (string \<times> nat) list \<Rightarrow> string \<Rightarrow> string \<Rightarrow> unit action" where
  "bar_of a data key title =
     and_then (dict_get data key) (\<lambda>df. plot_bar_chart a df title ''key'' ''value'' ''key'')"

definition pie_of :: "(string \<times> nat) list \<Rightarrow> string \<Rightarrow> string \<Rightarrow> unit action" where
  "pie_of data key title = and_then (dict_get data key) (\<lambda>df. plot_pie_chart df title)"

text \<open>
  Lines 113 to 167: the \<^verbatim>\<open>if data:\<close> test (\<^verbatim>\<open>None\<close> and the empty dictionary count as
  false) and the chain of comparisons of \<^verbatim>\<open>selected_key\<close>, which the program takes from
  \<^verbatim>\<open>dataset_options\<close> by the label chosen in the menu. The chain has no final \<^verbatim>\<open>else\<close>.
  The two layout columns of the demographic views are not modelled: the widgets are listed
  in the order they are made.
\<close>

definition main_dashboard ::
  "argsort \<Rightarrow> (string \<times> nat) list option \<Rightarrow> string \<Rightarrow> unit action" where
  "main_dashboard a data_opt selected_key =
     (case data_opt of
        None \<Rightarrow>
          emit (WarningBox
            ''Data could not be loaded. Please ensure all CSV files are in the same directory.'')
      | Some data \<Rightarrow>
          if data = [] then
            emit (WarningBox
              ''Data could not be loaded. Please ensure all CSV files are in the same directory.'')
          else if selected_key = ''offense_linked'' then
            and_then (emit (Header ''Offense Linked to Another Offense'')) (\<lambda>_.
            and_then (emit (Caption ''Shows the most common offenses linked to another crime.'')) (\<lambda>_.
            bar_of a data ''offense_linked'' ''Top 20 Linked Offenses''))
          else if selected_key = ''weapon_type'' then
            and_then (emit (Header ''Type of Weapon Involved by Offense'')) (\<lambda>_.
            and_then (emit (Caption ''Types of weapons most frequently involved in offenses.'')) (\<lambda>_.
            bar_of a data ''weapon_type'' ''Weapon Types in Offenses''))
          else if selected_key = ''victim_relationship'' then
            and_then (emit (Header ''Victim's Relationship to Offender'')) (\<lambda>_.
            and_then (emit (Caption ''Relationship patterns between victims and offenders.'')) (\<lambda>_.
            bar_of a data ''victim_relationship'' ''Victim-Offender Relationships''))
          else if selected_key = ''location_type'' then
            and_then (emit (Header ''Location Type of Offenses'')) (\<lambda>_.
            and_then (emit (Caption ''Where crimes are most likely to occur by location type.'')) (\<lambda>_.
            bar_of a data ''location_type'' ''Top 20 Crime Locations''))
          else if selected_key = ''victim_demographics'' then
            and_then (emit (Header ''Victim Demographics'')) (\<lambda>_.
            and_then (emit (Caption ''Breakdown of victim demographics by race, ethnicity, and sex.'')) (\<lambda>_.
            and_then (emit (Subheader ''Victim Race'')) (\<lambda>_.
            and_then (bar_of a data ''victim_race'' ''Victim Race Distribution'') (\<lambda>_.
            and_then (emit (Subheader ''Victim Ethnicity'')) (\<lambda>_.
            and_then (bar_of a data ''victim_ethnicity'' ''Victim Ethnicity Distribution'') (\<lambda>_.
            and_then (emit (Subheader ''Victim Sex'')) (\<lambda>_.
            pie_of data ''victim_sex'' ''Victim Sex Distribution'')))))))
          else if selected_key = ''offender_demographics'' then
            and_then (emit (Header ''Offender Demographics'')) (\<lambda>_.
            and_then (emit (Caption ''Breakdown of offender demographics by race, ethnicity, and sex.'')) (\<lambda>_.
            and_then (emit (Subheader ''Offender Race'')) (\<lambda>_.
            and_then (bar_of a data ''offender_race'' ''Offender Race Distribution'') (\<lambda>_.
            and_then (emit (Subheader ''Offender Ethnicity'')) (\<lambda>_.
            and_then (bar_of a data ''offender_ethnicity'' ''Offender Ethnicity Distribution'') (\<lambda>_.
            and_then (emit (Subheader ''Offender Sex'')) (\<lambda>_.
            pie_of data ''offender_sex'' ''Offender Sex Distribution'')))))))
          else return ())"

section \<open>Vocabulary of the properties\<close>

text \<open>
  An entry of \<^verbatim>\<open>files\<close> that the loop body gets through: the file is there and readable,
  and, where the key asks for the reshape, no column of its table is labelled
  \<^verbatim>\<open>Count\<close>.
\<close>

definition loadable :: "filesystem \<Rightarrow> string \<Rightarrow> string \<times> string \<Rightarrow> bool" where
  "loadable fs base_dir entry =
     (case fs (path_join base_dir (snd entry)) of
        Absent \<Rightarrow> False
      | Unreadable msg \<Rightarrow> False
      | Csv t \<Rightarrow> \<not> (str_contains ''sex'' (fst entry) \<and> ''Count'' \<in> set (columns t)))"

text \<open>An action that leaves every frame of the store as it is, and at most adds frames.\<close>

definition only_adds_frames :: "'a action \<Rightarrow> bool" where
  "only_adds_frames m \<longleftrightarrow> (\<forall>w. prefix (heap w) (heap (snd (m w))))"

text \<open>
  What a bar chart of the registry entry \<open>key\<close> shows, when the entry can be charted: the
  entry exists, its frame has the label column \<^verbatim>\<open>key\<close>, and the ranking by \<^verbatim>\<open>value\<close>
  succeeds. Likewise the frame a pie chart of an entry shows.
\<close>

definition bar_view :: "argsort \<Rightarrow> world \<Rightarrow> (string \<times> nat) list \<Rightarrow> string \<Rightarrow> table option" where
  "bar_view a w data key =
     (case map_of data key of
        None \<Rightarrow> None
      | Some df \<Rightarrow>
          if df < length (heap w) \<and> ''key'' \<in> set (columns (frame_at w df))
          then (case ranked a (frame_at w df) ''value'' of Inl e \<Rightarrow> None | Inr out \<Rightarrow> Some out)
          else None)"

definition pie_view :: "world \<Rightarrow> (string \<times> nat) list \<Rightarrow> string \<Rightarrow> table option" where
  "pie_view w data key =
     (case map_of data key of
        None \<Rightarrow> None
      | Some df \<Rightarrow>
          if df < length (heap w) \<and> ''Category'' \<in> set (columns (frame_at w df))
               \<and> ''Count'' \<in> set (columns (frame_at w df))
          then Some (frame_at w df)
          else None)"


text \<open>The widgets a run has added to the screen, and the figures among some widgets.\<close>

definition drawn :: "world \<Rightarrow> world \<Rightarrow> widget list" where
  "drawn w w' = drop (length (screen w)) (screen w')"

fun charts :: "widget list \<Rightarrow> figure list" where
  "charts [] = []"
| "charts (PlotlyChart fig # ws) = fig # charts ws"
| "charts (x # ws) = charts ws"

section \<open>Example data\<close>

definition weapons :: table where
  "weapons = \<lparr>columns = [''key'', ''value''],
               rows = [[Str ''Knife'', Num 200], [Str ''Unknown'', NaN],
                       [Str ''Firearm'', Num 500], [Str ''Blunt Object'', Num 150]]\<rparr>"

definition tie_table :: table where
  "tie_table = \<lparr>columns = [''key'', ''value''],
                 rows = [[Str ''A'', Num 5], [Str ''B'', Num 5]]\<rparr>"


definition sex_wide :: table where
  "sex_wide = \<lparr>columns = [''Male'', ''Female'', ''Unknown''],
                rows = [[Num 600, Num 400, Num 10]]\<rparr>"

definition sex_two_rows :: table where
  "sex_two_rows = \<lparr>columns = [''Male'', ''Female'', ''Unknown''],
                    rows = [[Num 600, Num 400, Num 10], [Num 1, NaN, Num 3]]\<rparr>"

definition sex_long :: table where
  "sex_long = \<lparr>columns = [''Category'', ''Count''],
                rows = [[Str ''Male'', Num 600], [Str ''Female'', Num 400],
                        [Str ''Unknown'', Num 10]]\<rparr>"

definition weapons_ranked :: table where
  "weapons_ranked = \<lparr>columns = [''key'', ''value''],
                      rows = [[Str ''Firearm'', Num 500], [Str ''Knife'', Num 200],
                              [Str ''Blunt Object'', Num 150], [Str ''Unknown'', NaN]]\<rparr>"

definition empty_world :: world where
  "empty_world = \<lparr>heap = [], screen = [], opened = []\<rparr>"

text \<open>
  Five file systems: one with all ten files, one whose sex tables already are long tables
  with a column \<^verbatim>\<open>Count\<close>, one whose sex tables have two rows, one where the third file
  is absent, and one whose first file is empty, so that \<^verbatim>\<open>read_csv\<close> raises
  \<^verbatim>\<open>EmptyDataError\<close>.
\<close>

definition demo_fs :: filesystem where
  "demo_fs path = (if str_contains ''sex'' path then Csv sex_wide else Csv weapons)"

definition sex_counted :: table where
  "sex_counted = \<lparr>columns = [''Sex'', ''Count''],
                   rows = [[Str ''Male'', Num 600], [Str ''Female'', Num 400]]\<rparr>"

definition counted_fs :: filesystem where
  "counted_fs path = (if str_contains ''sex'' path then Csv sex_counted else Csv weapons)"

definition two_row_fs :: filesystem where
  "two_row_fs path = (if str_contains ''sex'' path then Csv sex_two_rows else Csv weapons)"

definition missing_fs :: filesystem where
  "missing_fs path =
     (if path = ''/app/Victim's Relationship to Offender_09-30-2025.csv'' then Absent
      else demo_fs path)"

definition unreadable_fs :: filesystem where
  "unreadable_fs path =
     (if path = ''/app/Offense Linked to Another Offense_09-30-2025.csv''
      then Unreadable ''No columns to parse from file''
      else demo_fs path)"

text \<open>The registry and the world that \<^verbatim>\<open>load_data\<close> leaves on the first of them.\<close>

definition demo_data :: "(string \<times> nat) list" where
  "demo_data =
     [(''offense_linked'', 0), (''weapon_type'', 1), (''victim_relationship'', 2),
      (''location_type'', 3), (''victim_ethnicity'', 4), (''offender_ethnicity'', 5),
      (''victim_race'', 6), (''offender_race'', 7), (''victim_sex'', 9), (''offender_sex'', 11)]"

definition demo_world :: world where
  "demo_world =
     \<lparr>heap = [weapons, weapons, weapons, weapons, weapons, weapons, weapons, weapons,
              sex_wide, sex_long, sex_wide, sex_long],
      screen = [],
      opened = map (\<lambda>f. path_join ''/app'' (snd f)) files\<rparr>"

section \<open>Reshaping\<close>

lemma sum_list_const_zero: "sum_list (map (\<lambda>j. 0::int) xs) = 0"
  by (induction xs) simp_all

lemma sum_list_concat_int: "sum_list (concat xss) = sum_list (map sum_list (xss :: int list list))"
  by (induction xss) simp_all

lemma sum_row_by_index:
  "sum_list (map (\<lambda>j. f (r ! j)) [0..<length r]) = sum_list (map f r)"
proof -
  have "map (\<lambda>j. f (r ! j)) [0..<length r] = map f (map (\<lambda>j. r ! j) [0..<length r])"
    by simp
  also have "\<dots> = map f r"
    by (simp only: map_nth)
  finally show ?thesis by simp
qed

lemma sum_columns_then_rows:
  fixes f :: "'a \<Rightarrow> int"
  assumes "list_all (\<lambda>r. length r = c) rs"
  shows "sum_list (map (\<lambda>j. sum_list (map (\<lambda>r. f (r ! j)) rs)) [0..<c])
       = sum_list (map (\<lambda>r. sum_list (map f r)) rs)"
  using assms
proof (induction rs)
  case Nil
  show ?case by (simp add: sum_list_const_zero)
next
  case (Cons r rs)
  have len: "length r = c" and rest: "list_all (\<lambda>r. length r = c) rs"
    using Cons.prems by simp_all
  have "sum_list (map (\<lambda>j. sum_list (map (\<lambda>r. f (r ! j)) (r # rs))) [0..<c])
      = sum_list (map (\<lambda>j. f (r ! j) + sum_list (map (\<lambda>r. f (r ! j)) rs)) [0..<c])"
    by simp
  also have "\<dots> = sum_list (map (\<lambda>j. f (r ! j)) [0..<c])
                + sum_list (map (\<lambda>j. sum_list (map (\<lambda>r. f (r ! j)) rs)) [0..<c])"
    by (rule sum_list_addf)
  also have "sum_list (map (\<lambda>j. f (r ! j)) [0..<c]) = sum_list (map f r)"
    using sum_row_by_index [of f r] len by simp
  finally show ?case
    using Cons.IH [OF rest] by simp
qed

lemma length_concat_const:
  "length (concat (map (\<lambda>j. map (g j) rs) js)) = length rs * length js"
  by (induction js) simp_all

lemma melt_length: "length (rows (melt frame v w)) = length (rows frame) * length (columns frame)"
  by (simp add: melt_def length_concat_const)

lemma melt_count_column:
  "column (melt frame v w) 1
     = concat (map (\<lambda>j. map (\<lambda>r. r ! j) (rows frame)) [0..<length (columns frame)])"
  by (simp add: column_def melt_def map_concat comp_def)

lemma melt_sum:
  assumes "rectangular frame"
  shows "numeric_sum (column (melt frame v w) 1) = sum_list (map numeric_sum (rows frame))"
proof -
  have "numeric_sum (column (melt frame v w) 1)
      = sum_list (map (\<lambda>j. sum_list (map (\<lambda>r. cell_num (r ! j)) (rows frame)))
                      [0..<length (columns frame)])"
    unfolding melt_count_column numeric_sum_def
    by (simp add: map_concat sum_list_concat_int comp_def)
  also have "\<dots> = sum_list (map (\<lambda>r. sum_list (map cell_num r)) (rows frame))"
    using assms unfolding rectangular_def by (rule sum_columns_then_rows)
  finally show ?thesis
    by (simp add: numeric_sum_def [abs_def])
qed

lemma melt_single_row:
  assumes "length vs = length cs"
  shows "rows (melt \<lparr>columns = cs, rows = [vs]\<rparr> v w) = map (\<lambda>(c, x). [Str c, x]) (zip cs vs)"
proof (rule nth_equalityI)
  show "length (rows (melt \<lparr>columns = cs, rows = [vs]\<rparr> v w))
      = length (map (\<lambda>(c, x). [Str c, x]) (zip cs vs))"
    using assms by (simp add: melt_def)
next
  fix i
  assume "i < length (rows (melt \<lparr>columns = cs, rows = [vs]\<rparr> v w))"
  then have "i < length cs"
    by (simp add: melt_def)
  then show "rows (melt \<lparr>columns = cs, rows = [vs]\<rparr> v w) ! i
           = map (\<lambda>(c, x). [Str c, x]) (zip cs vs) ! i"
    using assms by (simp add: melt_def)
qed

subsection \<open>The reshape inside the loader\<close>

lemma read_table_absent:
  assumes "fs (path_join base_dir filename) = Absent"
  shows "read_table fs base_dir key filename w
       = (Raised (FileNotFoundError (path_join base_dir filename)),
          w\<lparr>opened := opened w @ [path_join base_dir filename]\<rparr>)"
  using assms by (simp add: read_table_def and_then_def read_csv_def)

lemma read_table_unreadable:
  assumes "fs (path_join base_dir filename) = Unreadable msg"
  shows "read_table fs base_dir key filename w
       = (Raised (OtherReadError msg), w\<lparr>opened := opened w @ [path_join base_dir filename]\<rparr>)"
  using assms by (simp add: read_table_def and_then_def read_csv_def)

lemma read_table_wide:
  assumes "fs (path_join base_dir filename) = Csv t" and "str_contains ''sex'' key"
    and "''Count'' \<notin> set (columns t)"
  shows "read_table fs base_dir key filename w
       = (Returned (Suc (length (heap w))),
          w\<lparr>opened := opened w @ [path_join base_dir filename],
            heap := heap w @ [t, melt t ''Category'' ''Count'']\<rparr>)"
  using assms
  by (simp add: read_table_def and_then_def read_csv_def new_frame_def df_melt_def frame_at_def)

lemma read_table_clash:
  assumes "fs (path_join base_dir filename) = Csv t" and "str_contains ''sex'' key"
    and "''Count'' \<in> set (columns t)"
  shows "read_table fs base_dir key filename w
       = (Raised (value_name_error ''Count''),
          w\<lparr>opened := opened w @ [path_join base_dir filename], heap := heap w @ [t]\<rparr>)"
  using assms
  by (simp add: read_table_def and_then_def read_csv_def new_frame_def df_melt_def frame_at_def)

lemma read_table_long:
  assumes "fs (path_join base_dir filename) = Csv t" and "\<not> str_contains ''sex'' key"
  shows "read_table fs base_dir key filename w
       = (Returned (length (heap w)),
          w\<lparr>opened := opened w @ [path_join base_dir filename], heap := heap w @ [t]\<rparr>)"
  using assms
  by (simp add: read_table_def and_then_def read_csv_def new_frame_def return_def)

lemma read_table_csv:
  assumes "fs (path_join base_dir filename) = Csv t"
    and "\<not> (str_contains ''sex'' key \<and> ''Count'' \<in> set (columns t))"
  shows "\<exists>df w1. read_table fs base_dir key filename w = (Returned df, w1)
           \<and> df < length (heap w1) \<and> prefix (heap w) (heap w1)
           \<and> screen w1 = screen w \<and> opened w1 = opened w @ [path_join base_dir filename]"
proof (cases "str_contains ''sex'' key")
  case True
  show ?thesis
    using assms True by (simp add: read_table_wide)
next
  case False
  show ?thesis
    using assms False by (simp add: read_table_long)
qed

lemma melt_columns: "columns (melt t v c) = [v, c]"
  by (simp add: melt_def)

text \<open>
  Claim C10. The reshape asks nothing of the number of rows. For a file stored under a key
  that contains \<^verbatim>\<open>sex\<close>, whatever the number \<open>r\<close> of rows and \<open>c\<close> of columns of its
  table, the loader stores a frame with the two columns Category and Count and \<open>r * c\<close>
  rows, and the Count column sums to the sum of all cells of the table (the numeric ones:
  a sum skips what is not a number). The table is one that \<^verbatim>\<open>melt\<close> accepts: none of its
  columns is already labelled \<^verbatim>\<open>Count\<close>.
\<close>

theorem melt_any_shape:
  assumes "fs (path_join base_dir filename) = Csv t" and "str_contains ''sex'' key"
    and "rectangular t" and "''Count'' \<notin> set (columns t)"
  shows "\<exists>df w1. read_table fs base_dir key filename w = (Returned df, w1)
           \<and> columns (frame_at w1 df) = [''Category'', ''Count'']
           \<and> length (rows (frame_at w1 df)) = length (rows t) * length (columns t)
           \<and> numeric_sum (column (frame_at w1 df) 1) = sum_list (map numeric_sum (rows t))"
proof -
  define w1 where "w1 = w\<lparr>opened := opened w @ [path_join base_dir filename],
                          heap := heap w @ [t, melt t ''Category'' ''Count'']\<rparr>"
  have run: "read_table fs base_dir key filename w = (Returned (Suc (length (heap w))), w1)"
    unfolding w1_def using assms(1,2,4) by (rule read_table_wide)
  have at: "frame_at w1 (Suc (length (heap w))) = melt t ''Category'' ''Count''"
    by (simp add: w1_def frame_at_def nth_append)
  have "columns (frame_at w1 (Suc (length (heap w)))) = [''Category'', ''Count'']"
    and "length (rows (frame_at w1 (Suc (length (heap w))))) = length (rows t) * length (columns t)"
    and "numeric_sum (column (frame_at w1 (Suc (length (heap w)))) 1)
       = sum_list (map numeric_sum (rows t))"
    unfolding at by (rule melt_columns, rule melt_length, rule melt_sum [OF assms(3)])
  then show ?thesis
    using run by blast
qed

theorem melt_any_shape_witness:
  "two_row_fs (path_join ''/app'' ''Victim sex_09-30-2025.csv'') = Csv sex_two_rows
   \<and> str_contains ''sex'' ''victim_sex'' \<and> rectangular sex_two_rows
   \<and> ''Count'' \<notin> set (columns sex_two_rows)
   \<and> (\<exists>df w1. read_table two_row_fs ''/app'' ''victim_sex''
                  ''Victim sex_09-30-2025.csv'' empty_world = (Returned df, w1)
           \<and> columns (frame_at w1 df) = [''Category'', ''Count'']
           \<and> length (rows (frame_at w1 df)) = length (rows sex_two_rows) * length (columns sex_two_rows)
           \<and> numeric_sum (column (frame_at w1 df) 1) = sum_list (map numeric_sum (rows sex_two_rows)))"
proof -
  have h1: "two_row_fs (path_join ''/app'' ''Victim sex_09-30-2025.csv'') = Csv sex_two_rows"
    by (simp add: two_row_fs_def path_join_def)
  have h2: "str_contains ''sex'' ''victim_sex''"
    by simp
  have h3: "rectangular sex_two_rows"
    by (simp add: rectangular_def sex_two_rows_def)
  have h4: "''Count'' \<notin> set (columns sex_two_rows)"
    by (simp add: sex_two_rows_def)
  show ?thesis
    using melt_any_shape [where fs = two_row_fs and w = empty_world, OF h1 h2 h3 h4] h1 h2 h3 h4
    by (intro conjI)
qed

text \<open>
  Claim C1. For a wide table with columns \<open>c\<^sub>1 \<dots> c\<^sub>n\<close> and the single row
  \<open>v\<^sub>1 \<dots> v\<^sub>n\<close>, read under a key that contains \<^verbatim>\<open>sex\<close>, the loader stores the long
  table with exactly \<open>n\<close> rows, row \<open>i\<close> being (Category = \<open>c\<^sub>i\<close>, Count = \<open>v\<^sub>i\<close>), in the
  order of the columns, and the Count column sums to the sum of the \<open>v\<^sub>i\<close>. The columns
  are those of a wide table of counts by sex: none of them is labelled \<^verbatim>\<open>Count\<close>, which
  \<^verbatim>\<open>melt\<close> would refuse.
\<close>

theorem reshape_single_row:
  assumes "fs (path_join base_dir filename) = Csv \<lparr>columns = cs, rows = [vs]\<rparr>"
    and "str_contains ''sex'' key" and "length vs = length cs" and "''Count'' \<notin> set cs"
  shows "\<exists>df w1. read_table fs base_dir key filename w = (Returned df, w1)
           \<and> frame_at w1 df = \<lparr>columns = [''Category'', ''Count''],
                                rows = map (\<lambda>(c, v). [Str c, v]) (zip cs vs)\<rparr>
           \<and> length (rows (frame_at w1 df)) = length cs
           \<and> numeric_sum (column (frame_at w1 df) 1) = numeric_sum vs"
proof -
  define t where "t = \<lparr>columns = cs, rows = [vs]\<rparr>"
  define w1 where "w1 = w\<lparr>opened := opened w @ [path_join base_dir filename],
                          heap := heap w @ [t, melt t ''Category'' ''Count'']\<rparr>"
  have run: "read_table fs base_dir key filename w = (Returned (Suc (length (heap w))), w1)"
    unfolding w1_def using assms(1,2,4) by (simp add: read_table_wide t_def)
  have at: "frame_at w1 (Suc (length (heap w))) = melt t ''Category'' ''Count''"
    by (simp add: w1_def frame_at_def nth_append)
  have rect: "rectangular t"
    using assms(3) by (simp add: rectangular_def t_def)
  have r: "rows (melt t ''Category'' ''Count'') = map (\<lambda>(c, v). [Str c, v]) (zip cs vs)"
    unfolding t_def using assms(3) by (rule melt_single_row)
  have "melt t ''Category'' ''Count''
      = \<lparr>columns = [''Category'', ''Count''], rows = map (\<lambda>(c, v). [Str c, v]) (zip cs vs)\<rparr>"
    using r melt_columns [of t "''Category''" "''Count''"] by (cases "melt t ''Category'' ''Count''") simp
  moreover have "length (rows (melt t ''Category'' ''Count'')) = length cs"
    using melt_length [of t] by (simp add: t_def)
  moreover have "numeric_sum (column (melt t ''Category'' ''Count'') 1) = numeric_sum vs"
    using melt_sum [OF rect] by (simp add: t_def)
  ultimately show ?thesis
    using run at by metis
qed

theorem reshape_single_row_witness:
  "demo_fs (path_join ''/app'' ''Victim sex_09-30-2025.csv'')
     = Csv \<lparr>columns = [''Male'', ''Female'', ''Unknown''], rows = [[Num 600, Num 400, Num 10]]\<rparr>
   \<and> str_contains ''sex'' ''victim_sex''
   \<and> length [Num 600, Num 400, Num 10] = length [''Male'', ''Female'', ''Unknown'']
   \<and> ''Count'' \<notin> set [''Male'', ''Female'', ''Unknown'']
   \<and> (\<exists>df w1. read_table demo_fs ''/app'' ''victim_sex''
                  ''Victim sex_09-30-2025.csv'' empty_world = (Returned df, w1)
           \<and> frame_at w1 df
               = \<lparr>columns = [''Category'', ''Count''],
                  rows = [[Str ''Male'', Num 600], [Str ''Female'', Num 400],
                          [Str ''Unknown'', Num 10]]\<rparr>
           \<and> length (rows (frame_at w1 df)) = 3
           \<and> numeric_sum (column (frame_at w1 df) 1) = 1010)"
proof -
  have h1: "demo_fs (path_join ''/app'' ''Victim sex_09-30-2025.csv'')
     = Csv \<lparr>columns = [''Male'', ''Female'', ''Unknown''], rows = [[Num 600, Num 400, Num 10]]\<rparr>"
    by (simp add: demo_fs_def path_join_def sex_wide_def)
  have h2: "str_contains ''sex'' ''victim_sex''"
    by simp
  have h3: "length [Num 600, Num 400, Num 10] = length [''Male'', ''Female'', ''Unknown'']"
    by simp
  have h4: "''Count'' \<notin> set [''Male'', ''Female'', ''Unknown'']"
    by simp
  have "\<exists>df w1. read_table demo_fs ''/app'' ''victim_sex''
                  ''Victim sex_09-30-2025.csv'' empty_world = (Returned df, w1)
           \<and> frame_at w1 df
               = \<lparr>columns = [''Category'', ''Count''],
                  rows = map (\<lambda>(c, v). [Str c, v])
                           (zip [''Male'', ''Female'', ''Unknown''] [Num 600, Num 400, Num 10])\<rparr>
           \<and> length (rows (frame_at w1 df)) = length [''Male'', ''Female'', ''Unknown'']
           \<and> numeric_sum (column (frame_at w1 df) 1) = numeric_sum [Num 600, Num 400, Num 10]"
    using reshape_single_row [where fs = demo_fs and w = empty_world, OF h1 h2 h3 h4] .
  then have "\<exists>df w1. read_table demo_fs ''/app'' ''victim_sex''
                  ''Victim sex_09-30-2025.csv'' empty_world = (Returned df, w1)
           \<and> frame_at w1 df
               = \<lparr>columns = [''Category'', ''Count''],
                  rows = [[Str ''Male'', Num 600], [Str ''Female'', Num 400],
                          [Str ''Unknown'', Num 10]]\<rparr>
           \<and> length (rows (frame_at w1 df)) = 3
           \<and> numeric_sum (column (frame_at w1 df) 1) = 1010"
    by (simp add: numeric_sum_def numeral_3_eq_3)
  then show ?thesis
    using h1 h2 h3 h4 by (intro conjI)
qed

section \<open>Ranking\<close>


lemma mixed_subset: "set xs \<subseteq> set ys \<Longrightarrow> \<not> mixed ys \<Longrightarrow> \<not> mixed xs"
  by (auto simp: mixed_def list_ex_iff)

lemma mset_map_nth_perm:
  assumes "mset p = mset [0..<length xs]"
  shows "mset (map (\<lambda>j. xs ! j) p) = mset xs"
proof -
  have "mset (map (\<lambda>j. xs ! j) p) = image_mset (\<lambda>j. xs ! j) (mset p)"
    by simp
  also have "\<dots> = image_mset (\<lambda>j. xs ! j) (mset [0..<length xs])"
    using assms by simp
  also have "\<dots> = mset (map (\<lambda>j. xs ! j) [0..<length xs])"
    by simp
  also have "\<dots> = mset xs"
    by (simp only: map_nth)
  finally show ?thesis .
qed

lemma mset_filter_split:
  "mset (filter (\<lambda>x. \<not> P x) xs) + mset (filter P xs) = mset xs"
  by (induction xs) simp_all

text \<open>The keys handed to the sorting routine: present, and all of one kind.\<close>

lemma non_nans_comparable:
  assumes "\<not> mixed ks"
  defines "nn \<equiv> map (\<lambda>i. ks ! i) (rev (filter (\<lambda>i. \<not> is_nan (ks ! i)) [0..<length ks]))"
  shows "\<not> list_ex is_nan nn" and "\<not> mixed nn"
proof -
  show "\<not> list_ex is_nan nn"
    by (auto simp: nn_def list_ex_iff)
  have "set nn \<subseteq> set ks"
    by (auto simp: nn_def)
  then show "\<not> mixed nn"
    using assms(1) by (rule mixed_subset)
qed

lemma nargsort_perm:
  assumes "argsort_ok a" and "\<not> mixed ks"
  shows "mset (nargsort a ks) = mset [0..<length ks]"
proof -
  define idx where "idx = rev (filter (\<lambda>i. \<not> is_nan (ks ! i)) [0..<length ks])"
  define nn where "nn = map (\<lambda>i. ks ! i) idx"
  have cmp: "\<not> list_ex is_nan nn" "\<not> mixed nn"
    using non_nans_comparable [OF assms(2)] by (simp_all add: nn_def idx_def)
  have "mset (a nn) = mset [0..<length nn]"
    using assms(1) cmp by (simp add: argsort_ok_def)
  then have "mset (a nn) = mset [0..<length idx]"
    by (simp add: nn_def)
  then have "mset (map (\<lambda>j. idx ! j) (a nn)) = mset idx"
    by (rule mset_map_nth_perm)
  then have "mset (nargsort a ks)
           = mset (filter (\<lambda>i. \<not> is_nan (ks ! i)) [0..<length ks])
           + mset (filter (\<lambda>i. is_nan (ks ! i)) [0..<length ks])"
    by (simp add: nargsort_def Let_def idx_def nn_def)
  then show ?thesis
    by (simp only: mset_filter_split)
qed

lemma count_ge_nan: "is_nan y \<Longrightarrow> count_ge x y"
  by (cases y) simp_all

lemma nargsort_keys:
  assumes "argsort_ok a" and "\<not> mixed ks"
  shows "sorted_wrt count_ge (map (\<lambda>i. ks ! i) (nargsort a ks))"
proof -
  define idx where "idx = rev (filter (\<lambda>i. \<not> is_nan (ks ! i)) [0..<length ks])"
  define nn where "nn = map (\<lambda>i. ks ! i) idx"
  define nans where "nans = filter (\<lambda>i. is_nan (ks ! i)) [0..<length ks]"
  have cmp: "\<not> list_ex is_nan nn" "\<not> mixed nn"
    using non_nans_comparable [OF assms(2)] by (simp_all add: nn_def idx_def)
  have perm: "mset (a nn) = mset [0..<length nn]"
    and srt: "sorted_wrt cell_le (map (\<lambda>i. nn ! i) (a nn))"
    using assms(1) cmp by (simp_all add: argsort_ok_def)
  have inrange: "\<forall>j \<in> set (a nn). j < length idx"
  proof -
    have "set (a nn) = set [0..<length nn]"
      using perm by (rule mset_eq_setD)
    then show ?thesis by (simp add: nn_def)
  qed
  have keys: "map (\<lambda>i. ks ! i) (map (\<lambda>j. idx ! j) (a nn)) = map (\<lambda>i. nn ! i) (a nn)"
    using inrange by (simp add: nn_def)
  have present: "\<forall>x \<in> set (map (\<lambda>i. nn ! i) (a nn)). \<not> is_nan x"
  proof -
    have "set (map (\<lambda>i. nn ! i) (a nn)) \<subseteq> set nn"
      using inrange by (auto simp: nn_def)
    then show ?thesis
      using cmp(1) by (auto simp: list_ex_iff)
  qed
  have desc: "sorted_wrt count_ge (rev (map (\<lambda>i. nn ! i) (a nn)))"
  proof -
    have "sorted_wrt (\<lambda>x y. cell_le y x) (rev (map (\<lambda>i. nn ! i) (a nn)))"
      using srt by (simp add: sorted_wrt_rev)
    moreover have "count_ge x y"
      if "x \<in> set (rev (map (\<lambda>i. nn ! i) (a nn)))" "y \<in> set (rev (map (\<lambda>i. nn ! i) (a nn)))"
        "cell_le y x" for x y
      using that(3) by (cases x; cases y) simp_all
    ultimately show ?thesis
      by (rule sorted_wrt_mono_rel [rotated])
  qed
  have nan_keys: "\<forall>y \<in> set (map (\<lambda>i. ks ! i) nans). is_nan y"
    by (simp add: nans_def)
  have tail: "sorted_wrt count_ge (map (\<lambda>i. ks ! i) nans)"
  proof -
    have "sorted_wrt (\<lambda>x y. True) (map (\<lambda>i. ks ! i) nans)"
      by (simp add: sorted_wrt_iff_nth_less)
    moreover have "count_ge x y"
      if "x \<in> set (map (\<lambda>i. ks ! i) nans)" "y \<in> set (map (\<lambda>i. ks ! i) nans)" for x y
      using that(2) nan_keys count_ge_nan by blast
    ultimately show ?thesis
      by (rule sorted_wrt_mono_rel [rotated])
  qed
  have cross: "\<forall>x \<in> set (rev (map (\<lambda>i. nn ! i) (a nn))). \<forall>y \<in> set (map (\<lambda>i. ks ! i) nans). count_ge x y"
    using nan_keys count_ge_nan by blast
  have "nargsort a ks = rev (map (\<lambda>j. idx ! j) (a nn)) @ nans"
    unfolding nargsort_def Let_def idx_def nn_def nans_def ..
  then have "map (\<lambda>i. ks ! i) (nargsort a ks)
      = rev (map (\<lambda>i. ks ! i) (map (\<lambda>j. idx ! j) (a nn))) @ map (\<lambda>i. ks ! i) nans"
    by (simp only: map_append rev_map)
  then have "map (\<lambda>i. ks ! i) (nargsort a ks)
      = rev (map (\<lambda>i. nn ! i) (a nn)) @ map (\<lambda>i. ks ! i) nans"
    by (simp only: keys)
  then show ?thesis
    using desc tail cross by (simp only: sorted_wrt_append)
qed


lemma cell_key_le:
  assumes "\<not> is_nan x" "\<not> is_nan y" "\<not> (is_num x \<and> is_str y)" "\<not> (is_str x \<and> is_num y)"
    and "cell_key x \<le> cell_key y"
  shows "cell_le x y"
  using assms by (cases x; cases y) auto

lemma sort_positions:
  assumes "\<not> list_ex is_nan ks" and "\<not> mixed ks" and "set p \<subseteq> {..<length ks}"
  shows "sorted_wrt cell_le (map (\<lambda>i. ks ! i) (sort_key (\<lambda>i. cell_key (ks ! i)) p))"
proof -
  define q where "q = sort_key (\<lambda>i. cell_key (ks ! i)) p"
  have "sorted (map (\<lambda>i. cell_key (ks ! i)) q)"
    unfolding q_def by (rule sorted_sort_key)
  then have "sorted_wrt (\<lambda>i j. cell_key (ks ! i) \<le> cell_key (ks ! j)) q"
    by (simp add: sorted_wrt_map)
  moreover have "cell_le (ks ! i) (ks ! j)"
    if "i \<in> set q" "j \<in> set q" "cell_key (ks ! i) \<le> cell_key (ks ! j)" for i j
  proof -
    have "i < length ks" "j < length ks"
      using that(1,2) assms(3) by (auto simp: q_def)
    then have mem: "ks ! i \<in> set ks" "ks ! j \<in> set ks"
      by simp_all
    show ?thesis
    proof (rule cell_key_le)
      show "\<not> is_nan (ks ! i)" "\<not> is_nan (ks ! j)"
        using mem assms(1) by (auto simp: list_ex_iff)
      show "\<not> (is_num (ks ! i) \<and> is_str (ks ! j))" "\<not> (is_str (ks ! i) \<and> is_num (ks ! j))"
        using mem assms(2) by (auto simp: mixed_def list_ex_iff)
      show "cell_key (ks ! i) \<le> cell_key (ks ! j)"
        by (rule that(3))
    qed
  qed
  ultimately have "sorted_wrt (\<lambda>i j. cell_le (ks ! i) (ks ! j)) q"
    by (rule sorted_wrt_mono_rel [rotated])
  then show ?thesis
    by (simp add: sorted_wrt_map q_def)
qed

lemma stable_argsort_ok: "argsort_ok stable_argsort"
  unfolding argsort_ok_def stable_argsort_def
  by (intro allI impI conjI, simp, rule sort_positions) auto



lemma table_update_rows: "df\<lparr>rows := r\<rparr> = \<lparr>columns = columns df, rows = r\<rparr>"
  by (cases df) simp

lemma ranked_rows:
  assumes "get_loc (columns df) y = Some j" and "\<not> mixed (column df j)"
  shows "ranked a df y
       = Inr \<lparr>columns = columns df,
              rows = map (\<lambda>i. rows df ! i) (take 20 (nargsort a (column df j)))\<rparr>"
  using assms by (simp add: ranked_def sort_values_def head_def table_update_rows take_map)

lemma ranked_raises:
  "ranked a df y = Inr out \<Longrightarrow> \<exists>j. get_loc (columns df) y = Some j \<and> \<not> mixed (column df j)"
  by (auto simp: ranked_def sort_values_def split: option.splits if_splits sum.splits)

lemma chosen_positions:
  assumes "argsort_ok a" and "\<not> mixed (column df j)"
  shows "distinct (chosen a df j)"
    and "set (chosen a df j) \<subseteq> {..<length (rows df)}"
    and "length (chosen a df j) = min (length (rows df)) 20"
proof -
  have perm: "mset (nargsort a (column df j)) = mset [0..<length (rows df)]"
    using nargsort_perm [OF assms] by (simp add: column_def)
  have "distinct (nargsort a (column df j))"
    using perm by (metis distinct_upt mset_eq_imp_distinct_iff)
  then show "distinct (chosen a df j)"
    by (simp add: chosen_def)
  have "set (nargsort a (column df j)) = set [0..<length (rows df)]"
    using perm by (rule mset_eq_setD)
  then show "set (chosen a df j) \<subseteq> {..<length (rows df)}"
    using set_take_subset [of 20 "nargsort a (column df j)"] by (auto simp: chosen_def)
  have "length (nargsort a (column df j)) = length [0..<length (rows df)]"
    using perm by (rule mset_eq_length)
  then show "length (chosen a df j) = min (length (rows df)) 20"
    by (simp add: chosen_def)
qed

lemma chosen_counts:
  assumes "argsort_ok a" and "\<not> mixed (column df j)"
  shows "column \<lparr>columns = cs, rows = map (\<lambda>i. rows df ! i) (chosen a df j)\<rparr> j
       = map (\<lambda>i. column df j ! i) (chosen a df j)"
  using chosen_positions(2) [OF assms] by (auto simp: column_def)

lemma chosen_sorted:
  assumes "argsort_ok a" and "\<not> mixed (column df j)"
  shows "sorted_wrt count_ge (map (\<lambda>i. column df j ! i) (chosen a df j))"
proof -
  have "sorted_wrt count_ge (take 20 (map (\<lambda>i. column df j ! i) (nargsort a (column df j))))"
    using nargsort_keys [OF assms] by (rule sorted_wrt_take)
  then show ?thesis
    by (simp add: chosen_def take_map)
qed

lemma ranked_counts_sorted:
  assumes "argsort_ok a" and "get_loc (columns df) y = Some j" and "ranked a df y = Inr out"
  shows "sorted_wrt count_ge (column out j)"
proof -
  have nm: "\<not> mixed (column df j)"
    using ranked_raises [OF assms(3)] assms(2) by simp
  have "out = \<lparr>columns = columns df, rows = map (\<lambda>i. rows df ! i) (chosen a df j)\<rparr>"
    using ranked_rows [OF assms(2) nm, of a] assms(3) by (simp add: chosen_def)
  then show ?thesis
    using chosen_sorted [OF assms(1) nm] chosen_counts [OF assms(1) nm, of "columns df"] by simp
qed



lemma sorted_column_nth:
  assumes "sorted_wrt R (column out j)" and "p < q" and "q < length (rows out)"
  shows "R (column out j ! p) (column out j ! q)"
  using assms(1,2) by (rule sorted_wrt_nth_less) (simp add: column_def assms(3))


text \<open>
  Claim C2. For a frame of \<open>m\<close> rows, the preparation of the ranked bar chart (sort by
  the count column, descending, then keep the first twenty) returns \<open>min m 20\<close> rows; of
  two adjacent rows of the result the first has a count at least as large as the second
  (\<open>count_ge\<close>: as Python compares two present counts, a missing count being the
  lowest; for two numbers this is \<open>\<ge>\<close> on the integers); and every row of the result is
  a whole row of the frame, under the same columns. This holds for every sorting routine
  that meets numpy's promise, for every frame that has the count column, unless the
  column holds numbers and texts side by side (then the sort raises).
\<close>

theorem ranked_top20_descending:
  assumes "argsort_ok a" and "get_loc (columns df) y = Some j" and "\<not> mixed (column df j)"
  shows "\<exists>out. ranked a df y = Inr out
           \<and> length (rows out) = min (length (rows df)) 20
           \<and> (\<forall>i. Suc i < length (rows out)
                  \<longrightarrow> count_ge (column out j ! i) (column out j ! Suc i))
           \<and> (\<forall>i n m. Suc i < length (rows out) \<and> column out j ! i = Num n
                       \<and> column out j ! Suc i = Num m \<longrightarrow> m \<le> n)
           \<and> columns out = columns df
           \<and> (\<exists>ix. distinct ix \<and> set ix \<subseteq> {..<length (rows df)}
                    \<and> rows out = map (\<lambda>i. rows df ! i) ix)"
proof -
  define out where "out = \<lparr>columns = columns df, rows = map (\<lambda>i. rows df ! i) (chosen a df j)\<rparr>"
  have res: "ranked a df y = Inr out"
    using ranked_rows [OF assms(2,3)] by (simp add: out_def chosen_def)
  have len: "length (rows out) = min (length (rows df)) 20"
    using chosen_positions(3) [OF assms(1,3)] by (simp add: out_def)
  have srt: "sorted_wrt count_ge (column out j)"
    using assms(1,2) res by (rule ranked_counts_sorted)
  have adj: "count_ge (column out j ! i) (column out j ! Suc i)" if "Suc i < length (rows out)" for i
    using srt _ that by (rule sorted_column_nth) simp
  have nums: "m \<le> n"
    if "Suc i < length (rows out)" "column out j ! i = Num n" "column out j ! Suc i = Num m"
    for i n m
    using adj [OF that(1)] that(2,3) by simp
  have "distinct (chosen a df j) \<and> set (chosen a df j) \<subseteq> {..<length (rows df)}
      \<and> rows out = map (\<lambda>i. rows df ! i) (chosen a df j)"
    using chosen_positions(1,2) [OF assms(1,3)] by (simp add: out_def)
  then have whole: "\<exists>ix. distinct ix \<and> set ix \<subseteq> {..<length (rows df)}
      \<and> rows out = map (\<lambda>i. rows df ! i) ix"
    by blast
  have cols: "columns out = columns df"
    by (simp add: out_def)
  show ?thesis
    using res len adj nums cols whole by blast
qed

lemma weapons_column: "get_loc (columns weapons) ''value'' = Some 1"
  by (simp add: weapons_def)

lemma weapons_not_mixed: "\<not> mixed (column weapons 1)"
  by (simp add: weapons_def column_def mixed_def)

theorem ranked_top20_descending_witness:
  "argsort_ok stable_argsort \<and> get_loc (columns weapons) ''value'' = Some 1
   \<and> \<not> mixed (column weapons 1)
   \<and> (\<exists>out. ranked stable_argsort weapons ''value'' = Inr out
           \<and> length (rows out) = min (length (rows weapons)) 20
           \<and> (\<forall>i. Suc i < length (rows out)
                  \<longrightarrow> count_ge (column out 1 ! i) (column out 1 ! Suc i))
           \<and> (\<forall>i n m. Suc i < length (rows out) \<and> column out 1 ! i = Num n
                       \<and> column out 1 ! Suc i = Num m \<longrightarrow> m \<le> n)
           \<and> columns out = columns weapons
           \<and> (\<exists>ix. distinct ix \<and> set ix \<subseteq> {..<length (rows weapons)}
                    \<and> rows out = map (\<lambda>i. rows weapons ! i) ix))"
  using ranked_top20_descending [OF stable_argsort_ok weapons_column weapons_not_mixed]
    stable_argsort_ok weapons_column weapons_not_mixed
  by (intro conjI)





text \<open>
  With the routine that keeps equal keys in their order, the two rows of \<open>tie_table\<close>,
  which have the same count, come out as they went in.
\<close>

lemma ranking_ties_stable_routine:
  "ranked stable_argsort tie_table ''value''
     = Inr \<lparr>columns = [''key'', ''value''],
            rows = [[Str ''A'', Num 5], [Str ''B'', Num 5]]\<rparr>"
  by (simp add: ranked_def sort_values_def tie_table_def column_def mixed_def nargsort_def
      stable_argsort_def head_def)




section \<open>Loading\<close>

lemma dict_set_keys: "k \<notin> set (map fst d) \<Longrightarrow> map fst (dict_set d k v) = map fst d @ [k]"
  by (induction d) auto

lemma dict_set_values: "set (map snd (dict_set d k v)) \<subseteq> insert v (set (map snd d))"
proof (induction d)
  case Nil
  show ?case by simp
next
  case (Cons e d)
  obtain k' v' where e: "e = (k', v')"
    by (cases e)
  show ?case
    using Cons.IH by (cases "k' = k") (auto simp: e)
qed

text \<open>What one pass through the loop body can do.\<close>

lemma read_table_cases:
  obtains
    (absent) "fs (path_join base_dir filename) = Absent"
      "read_table fs base_dir key filename w
         = (Raised (FileNotFoundError (path_join base_dir filename)),
            w\<lparr>opened := opened w @ [path_join base_dir filename]\<rparr>)"
  | (unreadable) msg where "fs (path_join base_dir filename) = Unreadable msg"
      "read_table fs base_dir key filename w
         = (Raised (OtherReadError msg), w\<lparr>opened := opened w @ [path_join base_dir filename]\<rparr>)"
  | (clash) t where "fs (path_join base_dir filename) = Csv t"
      "str_contains ''sex'' key" "''Count'' \<in> set (columns t)"
      "read_table fs base_dir key filename w
         = (Raised (value_name_error ''Count''),
            w\<lparr>opened := opened w @ [path_join base_dir filename], heap := heap w @ [t]\<rparr>)"
  | (csv) t df w1 where "fs (path_join base_dir filename) = Csv t"
      "\<not> (str_contains ''sex'' key \<and> ''Count'' \<in> set (columns t))"
      "read_table fs base_dir key filename w = (Returned df, w1)"
      "df < length (heap w1)" "prefix (heap w) (heap w1)"
      "screen w1 = screen w" "opened w1 = opened w @ [path_join base_dir filename]"
proof (cases "fs (path_join base_dir filename)")
  case Absent
  then show ?thesis
    using absent read_table_absent by blast
next
  case (Unreadable msg)
  then show ?thesis
    using unreadable read_table_unreadable by blast
next
  case (Csv t)
  show ?thesis
  proof (cases "str_contains ''sex'' key \<and> ''Count'' \<in> set (columns t)")
    case True
    then show ?thesis
      using clash [of t] Csv
        read_table_clash [where fs = fs and base_dir = base_dir and filename = filename
          and key = key and w = w and t = t]
      by blast
  next
    case False
    then show ?thesis
      using csv [of t] Csv
        read_table_csv [where fs = fs and base_dir = base_dir and filename = filename
          and key = key and w = w and t = t]
      by blast
  qed
qed

lemma value_name_error_not_found: "\<not> is_file_not_found (value_name_error n)"
  by (simp add: value_name_error_def)

lemma load_loop_absent:
  assumes "fs (path_join base_dir filename) = Absent"
  shows "load_loop fs base_dir ((key, filename) # rest) data w
       = (Returned None,
          w\<lparr>opened := opened w @ [path_join base_dir filename],
            screen := screen w @ [ErrorBox (''File not found: '' @ filename)]\<rparr>)"
  using assms by (simp add: read_table_absent and_then_def emit_def return_def)

lemma load_loop_unreadable:
  assumes "fs (path_join base_dir filename) = Unreadable msg"
  shows "load_loop fs base_dir ((key, filename) # rest) data w
       = (Raised (OtherReadError msg), w\<lparr>opened := opened w @ [path_join base_dir filename]\<rparr>)"
  using assms by (simp add: read_table_unreadable)

lemma load_loop_clash:
  assumes "fs (path_join base_dir filename) = Csv t" and "str_contains ''sex'' key"
    and "''Count'' \<in> set (columns t)"
  shows "load_loop fs base_dir ((key, filename) # rest) data w
       = (Raised (value_name_error ''Count''),
          w\<lparr>opened := opened w @ [path_join base_dir filename], heap := heap w @ [t]\<rparr>)"
  using assms by (simp add: read_table_clash value_name_error_not_found)

text \<open>
  In each of the three failing cases the loop stops with something that is not a registry.
\<close>

lemma load_loop_stops:
  assumes "\<not> loadable fs base_dir (key, filename)"
  shows "\<exists>w1. load_loop fs base_dir ((key, filename) # rest) data w = (Returned None, w1)
           \<or> (\<exists>e. load_loop fs base_dir ((key, filename) # rest) data w = (Raised e, w1))"
proof (cases rule: read_table_cases [of fs base_dir filename key w])
  case absent
  show ?thesis
    unfolding load_loop_absent [where fs = fs, OF absent(1)] by blast
next
  case (unreadable msg)
  show ?thesis
    unfolding load_loop_unreadable [where fs = fs, OF unreadable(1)] by blast
next
  case (clash t)
  show ?thesis
    unfolding load_loop_clash [where fs = fs, OF clash(1,2,3)] by blast
next
  case (csv t df w1)
  then show ?thesis
    using assms by (simp add: loadable_def)
qed

lemma loadable_step:
  assumes "loadable fs base_dir (key, filename)"
  shows "\<exists>df w1. read_table fs base_dir key filename w = (Returned df, w1)
           \<and> df < length (heap w1) \<and> prefix (heap w) (heap w1)
           \<and> screen w1 = screen w \<and> opened w1 = opened w @ [path_join base_dir filename]"
proof (cases rule: read_table_cases [of fs base_dir filename key w])
  case absent
  then show ?thesis
    using assms by (simp add: loadable_def)
next
  case (unreadable msg)
  then show ?thesis
    using assms by (simp add: loadable_def)
next
  case (clash t)
  then show ?thesis
    using assms by (simp add: loadable_def)
next
  case (csv t df w1)
  then show ?thesis
    by blast
qed

lemma load_loop_step:
  assumes "read_table fs base_dir key filename w = (Returned df, w1)"
  shows "load_loop fs base_dir ((key, filename) # rest) data w
       = load_loop fs base_dir rest (dict_set data key df) w1"
  using assms by simp

lemma load_loop_keys:
  assumes "load_loop fs base_dir fl data w = (Returned (Some d), w')"
    and "distinct (map fst data @ map fst fl)"
  shows "map fst d = map fst data @ map fst fl"
  using assms
proof (induction fl arbitrary: data w)
  case Nil
  then show ?case by simp
next
  case (Cons f fl)
  obtain key filename where f: "f = (key, filename)"
    by (cases f)
  show ?case
  proof (cases "loadable fs base_dir (key, filename)")
    case False
    then show ?thesis
      using load_loop_stops [of fs base_dir key filename fl data w] Cons.prems(1)
      by (auto simp: f simp del: load_loop.simps)
  next
    case True
    then obtain df w1 where step: "read_table fs base_dir key filename w = (Returned df, w1)"
      using loadable_step [of fs base_dir key filename w] by blast
    have next_step: "load_loop fs base_dir fl (dict_set data key df) w1 = (Returned (Some d), w')"
      using Cons.prems(1) load_loop_step [OF step, of fl data] by (simp add: f del: load_loop.simps)
    have fresh: "key \<notin> set (map fst data)"
      using Cons.prems(2) by (auto simp: f)
    have "distinct (map fst (dict_set data key df) @ map fst fl)"
      using Cons.prems(2) by (simp add: dict_set_keys [OF fresh] f)
    then have "map fst d = map fst (dict_set data key df) @ map fst fl"
      using Cons.IH next_step by blast
    then show ?thesis
      by (simp add: dict_set_keys [OF fresh] f)
  qed
qed

lemma load_loop_refs:
  assumes "load_loop fs base_dir fl data w = (Returned (Some d), w')"
    and "\<forall>r \<in> set (map snd data). r < length (heap w)"
  shows "\<forall>r \<in> set (map snd d). r < length (heap w')"
  using assms
proof (induction fl arbitrary: data w)
  case Nil
  then show ?case by simp
next
  case (Cons f fl)
  obtain key filename where f: "f = (key, filename)"
    by (cases f)
  show ?case
  proof (cases "loadable fs base_dir (key, filename)")
    case False
    then show ?thesis
      using load_loop_stops [of fs base_dir key filename fl data w] Cons.prems(1)
      by (auto simp: f simp del: load_loop.simps)
  next
    case True
    then obtain df w1 where step: "read_table fs base_dir key filename w = (Returned df, w1)"
      and valid: "df < length (heap w1)" and grows: "prefix (heap w) (heap w1)"
      using loadable_step [of fs base_dir key filename w] by blast
    have next_step: "load_loop fs base_dir fl (dict_set data key df) w1 = (Returned (Some d), w')"
      using Cons.prems(1) load_loop_step [OF step, of fl data] by (simp add: f del: load_loop.simps)
    have "length (heap w) \<le> length (heap w1)"
      using grows by (rule prefix_length_le)
    then have "\<forall>r \<in> insert df (set (map snd data)). r < length (heap w1)"
      using Cons.prems(2) valid by fastforce
    then have "\<forall>r \<in> set (map snd (dict_set data key df)). r < length (heap w1)"
      using dict_set_values [of data key df] by blast
    then show ?thesis
      using Cons.IH next_step by blast
  qed
qed

lemma load_loop_success_iff:
  "(\<exists>d w'. load_loop fs base_dir fl data w = (Returned (Some d), w'))
     \<longleftrightarrow> (\<forall>f \<in> set fl. loadable fs base_dir f)"
proof (induction fl arbitrary: data w)
  case Nil
  show ?case by simp
next
  case (Cons f fl)
  obtain key filename where f: "f = (key, filename)"
    by (cases f)
  show ?case
  proof (cases "loadable fs base_dir (key, filename)")
    case False
    then show ?thesis
      using load_loop_stops [of fs base_dir key filename fl data w]
      by (auto simp: f simp del: load_loop.simps)
  next
    case True
    then obtain df w1 where step: "read_table fs base_dir key filename w = (Returned df, w1)"
      using loadable_step [of fs base_dir key filename w] by blast
    have "load_loop fs base_dir (f # fl) data w = load_loop fs base_dir fl (dict_set data key df) w1"
      unfolding f using step by (rule load_loop_step)
    then show ?thesis
      using Cons.IH [of "dict_set data key df" w1] True by (simp add: f del: load_loop.simps)
  qed
qed

lemma load_loop_prefix:
  assumes "\<forall>f \<in> set pre. loadable fs base_dir f"
  shows "\<exists>data1 w1. load_loop fs base_dir (pre @ rest) data w = load_loop fs base_dir rest data1 w1
           \<and> screen w1 = screen w
           \<and> opened w1 = opened w @ map (\<lambda>f. path_join base_dir (snd f)) pre"
  using assms
proof (induction pre arbitrary: data w)
  case Nil
  have "load_loop fs base_dir ([] @ rest) data w = load_loop fs base_dir rest data w
      \<and> screen w = screen w \<and> opened w = opened w @ map (\<lambda>f. path_join base_dir (snd f)) []"
    by simp
  then show ?case by blast
next
  case (Cons f pre)
  obtain key filename where f: "f = (key, filename)"
    by (cases f)
  have "loadable fs base_dir (key, filename)"
    using Cons.prems by (simp add: f)
  then obtain df w1 where step: "read_table fs base_dir key filename w = (Returned df, w1)"
    and keep: "screen w1 = screen w" "opened w1 = opened w @ [path_join base_dir filename]"
    using loadable_step [of fs base_dir key filename w] by blast
  have "\<forall>f \<in> set pre. loadable fs base_dir f"
    using Cons.prems by simp
  then obtain data2 w2 where
    "load_loop fs base_dir (pre @ rest) (dict_set data key df) w1 = load_loop fs base_dir rest data2 w2"
    "screen w2 = screen w1" "opened w2 = opened w1 @ map (\<lambda>f. path_join base_dir (snd f)) pre"
    using Cons.IH [of "dict_set data key df" w1] by blast
  then show ?case
    using step keep by (auto simp: f)
qed

lemma files_keys:
  "map fst files
     = [''offense_linked'', ''weapon_type'', ''victim_relationship'', ''location_type'',
        ''victim_ethnicity'', ''offender_ethnicity'', ''victim_race'', ''offender_race'',
        ''victim_sex'', ''offender_sex'']"
  by (simp add: files_def)

lemma files_keys_distinct: "distinct (map fst files)"
  unfolding files_keys by simp

text \<open>
  Claim C3. Loading is all or nothing. Whenever \<^verbatim>\<open>load_data\<close> returns a registry, the
  registry has exactly the ten names, each bound to a frame of the store; and it returns a
  registry exactly when the loop body gets through all ten entries (every file is there
  and readable, and no sex table has a column that \<^verbatim>\<open>melt\<close> refuses). In every other
  case it returns \<^verbatim>\<open>None\<close> or raises, so no registry with fewer names exists; and given
  \<^verbatim>\<open>None\<close> the dashboard draws its warning and touches no table.
\<close>

theorem load_all_or_nothing:
  "(\<forall>d w'. load_data fs base_dir w = (Returned (Some d), w') \<longrightarrow>
       map fst d
         = [''offense_linked'', ''weapon_type'', ''victim_relationship'', ''location_type'',
            ''victim_ethnicity'', ''offender_ethnicity'', ''victim_race'', ''offender_race'',
            ''victim_sex'', ''offender_sex'']
       \<and> (\<forall>r \<in> set (map snd d). r < length (heap w')))
   \<and> ((\<exists>d w'. load_data fs base_dir w = (Returned (Some d), w'))
        \<longleftrightarrow> (\<forall>f \<in> set files. loadable fs base_dir f))
   \<and> ((\<exists>f \<in> set files. \<not> (\<exists>t. fs (path_join base_dir (snd f)) = Csv t)) \<longrightarrow>
        \<not> (\<exists>d w'. load_data fs base_dir w = (Returned (Some d), w')))
   \<and> main_dashboard a None selected_key w
       = (Returned (),
          w\<lparr>screen := screen w @ [WarningBox
            ''Data could not be loaded. Please ensure all CSV files are in the same directory.'']\<rparr>)"
proof (intro conjI allI impI)
  fix d w'
  assume run: "load_data fs base_dir w = (Returned (Some d), w')"
  then have loop: "load_loop fs base_dir files [] w = (Returned (Some d), w')"
    by (simp add: load_data_def)
  have "map fst d = map fst [] @ map fst files"
    using load_loop_keys [OF loop] files_keys_distinct by simp
  then show "map fst d
         = [''offense_linked'', ''weapon_type'', ''victim_relationship'', ''location_type'',
            ''victim_ethnicity'', ''offender_ethnicity'', ''victim_race'', ''offender_race'',
            ''victim_sex'', ''offender_sex'']"
    by (simp add: files_keys)
  show "\<forall>r \<in> set (map snd d). r < length (heap w')"
    using loop by (rule load_loop_refs) simp
next
  show iff: "(\<exists>d w'. load_data fs base_dir w = (Returned (Some d), w'))
        \<longleftrightarrow> (\<forall>f \<in> set files. loadable fs base_dir f)"
    unfolding load_data_def by (rule load_loop_success_iff)
  assume "\<exists>f \<in> set files. \<not> (\<exists>t. fs (path_join base_dir (snd f)) = Csv t)"
  then obtain f where "f \<in> set files" "\<not> (\<exists>t. fs (path_join base_dir (snd f)) = Csv t)"
    by blast
  then have "\<not> (\<forall>f \<in> set files. loadable fs base_dir f)"
    by (auto simp: loadable_def split: disk_file.splits)
  then show "\<not> (\<exists>d w'. load_data fs base_dir w = (Returned (Some d), w'))"
    using iff by simp
next
  show "main_dashboard a None selected_key w
       = (Returned (),
          w\<lparr>screen := screen w @ [WarningBox
            ''Data could not be loaded. Please ensure all CSV files are in the same directory.'']\<rparr>)"
    by (simp add: main_dashboard_def emit_def)
qed

lemma demo_fs_files: "\<forall>f \<in> set files. loadable demo_fs ''/app'' f"
  by (simp add: files_def loadable_def demo_fs_def path_join_def sex_wide_def)

lemma missing_fs_file:
  "missing_fs (path_join ''/app'' ''Victim's Relationship to Offender_09-30-2025.csv'') = Absent"
  by (simp add: missing_fs_def path_join_def)

lemma counted_fs_file:
  "counted_fs (path_join ''/app'' ''Victim sex_09-30-2025.csv'') = Csv sex_counted"
  by (simp add: counted_fs_def path_join_def)

theorem load_all_or_nothing_witness:
  "list_all (loadable demo_fs ''/app'') files
   \<and> (\<exists>d w'. load_data demo_fs ''/app'' empty_world = (Returned (Some d), w')
          \<and> map fst d
            = [''offense_linked'', ''weapon_type'', ''victim_relationship'', ''location_type'',
               ''victim_ethnicity'', ''offender_ethnicity'', ''victim_race'', ''offender_race'',
               ''victim_sex'', ''offender_sex''])
   \<and> \<not> list_all (loadable missing_fs ''/app'') files
   \<and> \<not> (\<exists>d w'. load_data missing_fs ''/app'' empty_world = (Returned (Some d), w'))
   \<and> \<not> list_all (loadable counted_fs ''/app'') files
   \<and> \<not> (\<exists>d w'. load_data counted_fs ''/app'' empty_world = (Returned (Some d), w'))"
proof -
  have absent: "\<not> (\<forall>f \<in> set files. loadable missing_fs ''/app'' f)"
    using missing_fs_file by (auto simp: files_def loadable_def)
  have clash: "\<not> (\<forall>f \<in> set files. loadable counted_fs ''/app'' f)"
    using counted_fs_file by (auto simp: files_def loadable_def sex_counted_def)
  have ok: "\<exists>d w'. load_data demo_fs ''/app'' empty_world = (Returned (Some d), w')"
    using load_all_or_nothing [of demo_fs "''/app''" empty_world] demo_fs_files by simp
  then obtain d w' where run: "load_data demo_fs ''/app'' empty_world = (Returned (Some d), w')"
    by blast
  have "map fst d
            = [''offense_linked'', ''weapon_type'', ''victim_relationship'', ''location_type'',
               ''victim_ethnicity'', ''offender_ethnicity'', ''victim_race'', ''offender_race'',
               ''victim_sex'', ''offender_sex'']"
    using load_all_or_nothing [of demo_fs "''/app''" empty_world] run by simp
  then have loaded: "\<exists>d w'. load_data demo_fs ''/app'' empty_world = (Returned (Some d), w')
          \<and> map fst d
            = [''offense_linked'', ''weapon_type'', ''victim_relationship'', ''location_type'',
               ''victim_ethnicity'', ''offender_ethnicity'', ''victim_race'', ''offender_race'',
               ''victim_sex'', ''offender_sex'']"
    using run by (intro exI conjI)
  have none: "\<not> (\<exists>d w'. load_data missing_fs ''/app'' empty_world = (Returned (Some d), w'))"
    using load_all_or_nothing [of missing_fs "''/app''" empty_world] absent by simp
  have none_clash: "\<not> (\<exists>d w'. load_data counted_fs ''/app'' empty_world = (Returned (Some d), w'))"
    using load_all_or_nothing [of counted_fs "''/app''" empty_world] clash by simp
  have all_there: "list_all (loadable demo_fs ''/app'') files"
    using demo_fs_files by (simp only: list_all_iff)
  have not_there: "\<not> list_all (loadable missing_fs ''/app'') files"
    using absent by (simp add: list_all_iff)
  have not_melted: "\<not> list_all (loadable counted_fs ''/app'') files"
    using clash by (simp add: list_all_iff)
  show ?thesis
    using all_there loaded not_there none not_melted none_clash by (intro conjI)
qed

text \<open>
  Claim C7, amended. Let the loop body get through the entries before \<open>filename\<close>. If
  \<open>filename\<close> is absent, \<^verbatim>\<open>load_data\<close> shows an error that names the file, returns
  \<^verbatim>\<open>None\<close>, and has opened no file after it. If \<open>filename\<close> is there but cannot be read,
  the exception of \<^verbatim>\<open>read_csv\<close> is not caught (only \<^verbatim>\<open>FileNotFoundError\<close> is): it leaves
  \<^verbatim>\<open>load_data\<close>, nothing is shown, and again no later file has been opened. The same
  holds for the \<^verbatim>\<open>ValueError\<close> of \<^verbatim>\<open>melt\<close> on a sex table with a column \<^verbatim>\<open>Count\<close>.
\<close>

theorem load_stops_at_first_failure:
  assumes "files = pre @ (key, filename) # post"
    and "\<forall>f \<in> set pre. loadable fs base_dir f"
  shows "(fs (path_join base_dir filename) = Absent \<longrightarrow>
           (\<exists>w'. load_data fs base_dir w = (Returned None, w')
              \<and> screen w' = screen w @ [ErrorBox (''File not found: '' @ filename)]
              \<and> opened w' = opened w @ map (\<lambda>f. path_join base_dir (snd f)) pre
                                     @ [path_join base_dir filename]))
       \<and> (\<forall>msg. fs (path_join base_dir filename) = Unreadable msg \<longrightarrow>
           (\<exists>w'. load_data fs base_dir w = (Raised (OtherReadError msg), w')
              \<and> screen w' = screen w
              \<and> opened w' = opened w @ map (\<lambda>f. path_join base_dir (snd f)) pre
                                     @ [path_join base_dir filename]))
       \<and> (\<forall>t. fs (path_join base_dir filename) = Csv t \<and> str_contains ''sex'' key
                \<and> ''Count'' \<in> set (columns t) \<longrightarrow>
           (\<exists>w'. load_data fs base_dir w = (Raised (value_name_error ''Count''), w')
              \<and> screen w' = screen w
              \<and> opened w' = opened w @ map (\<lambda>f. path_join base_dir (snd f)) pre
                                     @ [path_join base_dir filename]))"
proof -
  obtain data1 w1 where
    skip: "load_loop fs base_dir (pre @ (key, filename) # post) [] w
         = load_loop fs base_dir ((key, filename) # post) data1 w1"
    and keep: "screen w1 = screen w"
      "opened w1 = opened w @ map (\<lambda>f. path_join base_dir (snd f)) pre"
    using load_loop_prefix [OF assms(2)] by blast
  have run: "load_data fs base_dir w = load_loop fs base_dir ((key, filename) # post) data1 w1"
    using skip by (simp add: load_data_def assms(1))
  show ?thesis
  proof (intro conjI allI impI)
    assume absent: "fs (path_join base_dir filename) = Absent"
    show "\<exists>w'. load_data fs base_dir w = (Returned None, w')
              \<and> screen w' = screen w @ [ErrorBox (''File not found: '' @ filename)]
              \<and> opened w' = opened w @ map (\<lambda>f. path_join base_dir (snd f)) pre
                                     @ [path_join base_dir filename]"
      unfolding run load_loop_absent [where fs = fs, OF absent]
      using keep by simp
  next
    fix msg
    assume unreadable: "fs (path_join base_dir filename) = Unreadable msg"
    show "\<exists>w'. load_data fs base_dir w = (Raised (OtherReadError msg), w')
              \<and> screen w' = screen w
              \<and> opened w' = opened w @ map (\<lambda>f. path_join base_dir (snd f)) pre
                                     @ [path_join base_dir filename]"
      unfolding run load_loop_unreadable [where fs = fs, OF unreadable]
      using keep by simp
  next
    fix t
    assume clash: "fs (path_join base_dir filename) = Csv t \<and> str_contains ''sex'' key
                \<and> ''Count'' \<in> set (columns t)"
    have c: "fs (path_join base_dir filename) = Csv t" "str_contains ''sex'' key"
      "''Count'' \<in> set (columns t)"
      using clash by simp_all
    show "\<exists>w'. load_data fs base_dir w = (Raised (value_name_error ''Count''), w')
              \<and> screen w' = screen w
              \<and> opened w' = opened w @ map (\<lambda>f. path_join base_dir (snd f)) pre
                                     @ [path_join base_dir filename]"
      unfolding run load_loop_clash [where fs = fs, OF c]
      using keep by simp
  qed
qed

lemma missing_fs_first_two: "\<forall>f \<in> set (take 2 files). loadable missing_fs ''/app'' f"
  by (simp add: files_def loadable_def missing_fs_def demo_fs_def path_join_def)

lemma counted_fs_first_eight: "\<forall>f \<in> set (take 8 files). loadable counted_fs ''/app'' f"
  by (simp add: files_def loadable_def counted_fs_def path_join_def)

lemma unreadable_fs_file:
  "unreadable_fs (path_join ''/app'' ''Offense Linked to Another Offense_09-30-2025.csv'')
     = Unreadable ''No columns to parse from file''"
  by (simp add: unreadable_fs_def path_join_def)

theorem load_stops_at_first_failure_witness:
  "files = take 2 files
           @ (''victim_relationship'', ''Victim's Relationship to Offender_09-30-2025.csv'')
           # drop 3 files
   \<and> list_all (loadable missing_fs ''/app'') (take 2 files)
   \<and> missing_fs (path_join ''/app'' ''Victim's Relationship to Offender_09-30-2025.csv'') = Absent
   \<and> (\<exists>w'. load_data missing_fs ''/app'' empty_world = (Returned None, w')
          \<and> screen w' = [ErrorBox ''File not found: Victim's Relationship to Offender_09-30-2025.csv'']
          \<and> opened w' = [''/app/Offense Linked to Another Offense_09-30-2025.csv'',
                          ''/app/Type of Weapon Involved by Offense_09-30-2025.csv'',
                          ''/app/Victim's Relationship to Offender_09-30-2025.csv''])
   \<and> files = [] @ (''offense_linked'', ''Offense Linked to Another Offense_09-30-2025.csv'')
              # drop 1 files
   \<and> unreadable_fs (path_join ''/app'' ''Offense Linked to Another Offense_09-30-2025.csv'')
       = Unreadable ''No columns to parse from file''
   \<and> (\<exists>w'. load_data unreadable_fs ''/app'' empty_world
              = (Raised (OtherReadError ''No columns to parse from file''), w')
          \<and> screen w' = []
          \<and> opened w' = [''/app/Offense Linked to Another Offense_09-30-2025.csv''])
   \<and> files = take 8 files @ (''victim_sex'', ''Victim sex_09-30-2025.csv'') # drop 9 files
   \<and> list_all (loadable counted_fs ''/app'') (take 8 files)
   \<and> counted_fs (path_join ''/app'' ''Victim sex_09-30-2025.csv'') = Csv sex_counted
   \<and> str_contains ''sex'' ''victim_sex'' \<and> ''Count'' \<in> set (columns sex_counted)
   \<and> (\<exists>w'. load_data counted_fs ''/app'' empty_world
              = (Raised (value_name_error ''Count''), w')
          \<and> screen w' = []
          \<and> opened w' = map (\<lambda>f. path_join ''/app'' (snd f)) (take 9 files))"
proof -
  have split1: "files = take 2 files
           @ (''victim_relationship'', ''Victim's Relationship to Offender_09-30-2025.csv'')
           # drop 3 files"
    by (simp add: files_def)
  have split2: "files = [] @ (''offense_linked'', ''Offense Linked to Another Offense_09-30-2025.csv'')
              # drop 1 files"
    by (simp add: files_def)
  have split3: "files = take 8 files @ (''victim_sex'', ''Victim sex_09-30-2025.csv'') # drop 9 files"
    by (simp add: files_def)
  have none: "\<forall>f \<in> set []. loadable unreadable_fs ''/app'' f"
    by simp
  have sex: "str_contains ''sex'' ''victim_sex''"
    by simp
  have count: "''Count'' \<in> set (columns sex_counted)"
    by (simp add: sex_counted_def)
  have missing: "\<exists>w'. load_data missing_fs ''/app'' empty_world = (Returned None, w')
          \<and> screen w' = [ErrorBox ''File not found: Victim's Relationship to Offender_09-30-2025.csv'']
          \<and> opened w' = [''/app/Offense Linked to Another Offense_09-30-2025.csv'',
                          ''/app/Type of Weapon Involved by Offense_09-30-2025.csv'',
                          ''/app/Victim's Relationship to Offender_09-30-2025.csv'']"
    using load_stops_at_first_failure [where fs = missing_fs and base_dir = "''/app''"
        and w = empty_world, OF split1 missing_fs_first_two] missing_fs_file
    by (simp add: empty_world_def files_def path_join_def)
  have unreadable: "\<exists>w'. load_data unreadable_fs ''/app'' empty_world
              = (Raised (OtherReadError ''No columns to parse from file''), w')
          \<and> screen w' = []
          \<and> opened w' = [''/app/Offense Linked to Another Offense_09-30-2025.csv'']"
    using load_stops_at_first_failure [where fs = unreadable_fs and base_dir = "''/app''"
        and w = empty_world, OF split2 none] unreadable_fs_file
    by (simp add: empty_world_def path_join_def)
  have clash: "\<exists>w'. load_data counted_fs ''/app'' empty_world
              = (Raised (value_name_error ''Count''), w')
          \<and> screen w' = []
          \<and> opened w' = map (\<lambda>f. path_join ''/app'' (snd f)) (take 9 files)"
    using load_stops_at_first_failure [where fs = counted_fs and base_dir = "''/app''"
        and w = empty_world, OF split3 counted_fs_first_eight] counted_fs_file sex count
    by (simp add: empty_world_def files_def)
  have first_two: "list_all (loadable missing_fs ''/app'') (take 2 files)"
    using missing_fs_first_two by (simp only: list_all_iff)
  have first_eight: "list_all (loadable counted_fs ''/app'') (take 8 files)"
    using counted_fs_first_eight by (simp only: list_all_iff)
  show ?thesis
    using split1 first_two missing_fs_file missing split2 unreadable_fs_file unreadable
      split3 first_eight counted_fs_file sex count clash
    by (intro conjI)
qed

text \<open>
  The claim as stated fails for a file that is there but unreadable: on a file system whose
  first file is empty, \<^verbatim>\<open>load_data\<close> does not return the failure value and shows no
  message naming the file; the exception of \<^verbatim>\<open>read_csv\<close> propagates.
\<close>

theorem unreadable_file_counterexample:
  "load_data unreadable_fs ''/app'' empty_world
     = (Raised (OtherReadError ''No columns to parse from file''),
        \<lparr>heap = [], screen = [],
          opened = [''/app/Offense Linked to Another Offense_09-30-2025.csv'']\<rparr>)"
  by (simp add: load_data_def files_def read_table_def and_then_def read_csv_def path_join_def
      unreadable_fs_def empty_world_def)

section \<open>Rendering\<close>

subsection \<open>Frames are never changed\<close>

lemma adds_return: "only_adds_frames (return x)"
  by (simp add: only_adds_frames_def return_def)

lemma adds_raise: "only_adds_frames (raise e)"
  by (simp add: only_adds_frames_def raise_def)

lemma adds_emit: "only_adds_frames (emit x)"
  by (simp add: only_adds_frames_def emit_def)

lemma adds_and_then:
  assumes "only_adds_frames m" and "\<And>x. only_adds_frames (f x)"
  shows "only_adds_frames (and_then m f)"
  unfolding only_adds_frames_def
proof
  fix w
  obtain r w1 where m: "m w = (r, w1)"
    by (cases "m w")
  have p1: "prefix (heap w) (heap w1)"
    using assms(1) m by (auto simp: only_adds_frames_def dest: spec [of _ w])
  show "prefix (heap w) (heap (snd (and_then m f w)))"
  proof (cases r)
    case (Returned x)
    have "prefix (heap w1) (heap (snd (f x w1)))"
      using assms(2) [of x] by (simp add: only_adds_frames_def)
    then show ?thesis
      using p1 m Returned by (auto simp: and_then_def intro: prefix_order.trans)
  next
    case (Raised e)
    then show ?thesis
      using p1 m by (simp add: and_then_def)
  qed
qed

lemma adds_df_sort_values: "only_adds_frames (df_sort_values a df y)"
  by (auto simp: only_adds_frames_def df_sort_values_def new_frame_def split: sum.splits)

lemma adds_df_head: "only_adds_frames (df_head df n)"
  by (simp add: only_adds_frames_def df_head_def new_frame_def)

lemma adds_px_bar: "only_adds_frames (px_bar df x y color title)"
  by (simp add: only_adds_frames_def px_bar_def)

lemma adds_px_pie: "only_adds_frames (px_pie df names vals title)"
  by (simp add: only_adds_frames_def px_pie_def)

lemma adds_st_plotly_chart: "only_adds_frames (st_plotly_chart fig)"
  by (simp add: st_plotly_chart_def adds_emit)

lemma adds_st_dataframe: "only_adds_frames (st_dataframe df h)"
  by (simp add: only_adds_frames_def st_dataframe_def emit_def)

lemma adds_dict_get: "only_adds_frames (dict_get d k)"
  by (simp add: dict_get_def adds_return adds_raise split: option.splits)

lemma adds_plot_bar_chart: "only_adds_frames (plot_bar_chart a df title x y color)"
  unfolding plot_bar_chart_def
  by (intro adds_and_then adds_df_sort_values adds_df_head adds_px_bar adds_st_plotly_chart
      adds_st_dataframe)

lemma adds_plot_pie_chart: "only_adds_frames (plot_pie_chart df title)"
  unfolding plot_pie_chart_def
  by (intro adds_and_then adds_px_pie adds_st_plotly_chart adds_st_dataframe)

lemma adds_bar_of: "only_adds_frames (bar_of a data key title)"
  unfolding bar_of_def by (intro adds_and_then adds_dict_get adds_plot_bar_chart)

lemma adds_pie_of: "only_adds_frames (pie_of data key title)"
  unfolding pie_of_def by (intro adds_and_then adds_dict_get adds_plot_pie_chart)

lemma adds_if:
  assumes "only_adds_frames m" and "only_adds_frames n"
  shows "only_adds_frames (if c then m else n)"
  using assms by simp

lemma adds_main_dashboard: "only_adds_frames (main_dashboard a data_opt selected_key)"
proof (cases data_opt)
  case None
  then show ?thesis
    by (simp add: main_dashboard_def adds_emit)
next
  case (Some data)
  show ?thesis
    unfolding main_dashboard_def Some option.case
    by (intro adds_if adds_and_then adds_emit adds_bar_of adds_pie_of adds_return)
qed

lemma frames_kept:
  assumes "only_adds_frames m" and "r < length (heap w)"
  shows "frame_at (snd (m w)) r = frame_at w r"
proof -
  have "prefix (heap w) (heap (snd (m w)))"
    using assms(1) by (simp add: only_adds_frames_def)
  then obtain more where "heap (snd (m w)) = heap w @ more"
    by (auto simp: prefix_def)
  then show ?thesis
    using assms(2) by (simp add: frame_at_def nth_append)
qed

lemma demo_load: "load_data demo_fs ''/app'' empty_world = (Returned (Some demo_data), demo_world)"
  by (simp add: load_data_def files_def read_table_def and_then_def read_csv_def path_join_def
      demo_fs_def empty_world_def new_frame_def df_melt_def frame_at_def return_def melt_def
      demo_data_def demo_world_def sex_wide_def sex_long_def)

lemma weapons_ranked_eq: "ranked stable_argsort weapons ''value'' = Inr weapons_ranked"
  by (simp add: ranked_def sort_values_def weapons_def column_def mixed_def nargsort_def
      stable_argsort_def head_def weapons_ranked_def)

lemma demo_bar_views:
  "bar_view stable_argsort demo_world demo_data ''offense_linked'' = Some weapons_ranked"
  "bar_view stable_argsort demo_world demo_data ''weapon_type'' = Some weapons_ranked"
  "bar_view stable_argsort demo_world demo_data ''victim_relationship'' = Some weapons_ranked"
  "bar_view stable_argsort demo_world demo_data ''location_type'' = Some weapons_ranked"
  "bar_view stable_argsort demo_world demo_data ''victim_ethnicity'' = Some weapons_ranked"
  "bar_view stable_argsort demo_world demo_data ''offender_ethnicity'' = Some weapons_ranked"
  "bar_view stable_argsort demo_world demo_data ''victim_race'' = Some weapons_ranked"
  "bar_view stable_argsort demo_world demo_data ''offender_race'' = Some weapons_ranked"
  by (simp_all add: bar_view_def demo_data_def demo_world_def frame_at_def weapons_ranked_eq)
     (simp_all add: weapons_def)

lemma demo_pie_views:
  "pie_view demo_world demo_data ''victim_sex'' = Some sex_long"
  "pie_view demo_world demo_data ''offender_sex'' = Some sex_long"
  by (simp_all add: pie_view_def demo_data_def demo_world_def frame_at_def)
     (simp_all add: sex_long_def)


text \<open>
  Claim C9. Rendering never changes the loaded data: after the dashboard has drawn any
  view (any view identifier, any registry, also when drawing raises), and after either
  chart helper, every frame that was in the store before is still there, unchanged. The
  sort and the truncation of \<^verbatim>\<open>plot_bar_chart\<close> build new frames. In particular every
  table of a registry that \<^verbatim>\<open>load_data\<close> has returned is, after the view is drawn, what it
  was right after loading.
\<close>

theorem rendering_keeps_frames:
  "(\<forall>r. r < length (heap w) \<longrightarrow>
       frame_at (snd (main_dashboard a data_opt selected_key w)) r = frame_at w r)
   \<and> (\<forall>r. r < length (heap w) \<longrightarrow>
       frame_at (snd (plot_bar_chart a df title x y color w)) r = frame_at w r)
   \<and> (\<forall>r. r < length (heap w) \<longrightarrow>
       frame_at (snd (plot_pie_chart sex_df sex_title w)) r = frame_at w r)
   \<and> (\<forall>d w1 r. load_data fs base_dir w = (Returned (Some d), w1) \<and> r \<in> set (map snd d) \<longrightarrow>
       frame_at (snd (main_dashboard a (Some d) selected_key w1)) r = frame_at w1 r)"
proof (intro conjI allI impI)
  fix r
  assume "r < length (heap w)"
  then show "frame_at (snd (main_dashboard a data_opt selected_key w)) r = frame_at w r"
    using adds_main_dashboard by (rule frames_kept [rotated])
next
  fix r
  assume "r < length (heap w)"
  then show "frame_at (snd (plot_bar_chart a df title x y color w)) r = frame_at w r"
    using adds_plot_bar_chart by (rule frames_kept [rotated])
next
  fix r
  assume "r < length (heap w)"
  then show "frame_at (snd (plot_pie_chart sex_df sex_title w)) r = frame_at w r"
    using adds_plot_pie_chart by (rule frames_kept [rotated])
next
  fix d w1 r
  assume loaded: "load_data fs base_dir w = (Returned (Some d), w1) \<and> r \<in> set (map snd d)"
  then have "load_loop fs base_dir files [] w = (Returned (Some d), w1)"
    by (simp add: load_data_def)
  then have "\<forall>r \<in> set (map snd d). r < length (heap w1)"
    by (rule load_loop_refs) simp
  then have "r < length (heap w1)"
    using loaded by blast
  then show "frame_at (snd (main_dashboard a (Some d) selected_key w1)) r = frame_at w1 r"
    using adds_main_dashboard by (rule frames_kept [rotated])
qed

theorem rendering_keeps_frames_witness:
  "(6::nat) < length (heap demo_world)
   \<and> frame_at (snd (main_dashboard stable_argsort (Some demo_data) ''victim_demographics''
                       demo_world)) 6 = weapons
   \<and> frame_at (snd (plot_bar_chart stable_argsort 6 ''Victim Race Distribution''
                       ''key'' ''value'' ''key'' demo_world)) 6 = weapons
   \<and> frame_at (snd (plot_pie_chart 9 ''Victim Sex Distribution'' demo_world)) 6 = weapons
   \<and> load_data demo_fs ''/app'' empty_world = (Returned (Some demo_data), demo_world)
   \<and> 9 \<in> set (map snd demo_data)
   \<and> frame_at (snd (main_dashboard stable_argsort (Some demo_data) ''victim_demographics''
                       demo_world)) 9 = sex_long"
proof -
  have h: "(6::nat) < length (heap demo_world)"
    by (simp add: demo_world_def)
  have at: "frame_at demo_world 6 = weapons" "frame_at demo_world 9 = sex_long"
    by (simp_all add: demo_world_def frame_at_def)
  have ref: "9 \<in> set (map snd demo_data)"
    by (simp add: demo_data_def)
  note kept = rendering_keeps_frames [where w = demo_world and a = stable_argsort
        and data_opt = "Some demo_data" and selected_key = "''victim_demographics''" and df = 6
        and title = "''Victim Race Distribution''" and x = "''key''" and y = "''value''"
        and color = "''key''" and sex_df = 9 and sex_title = "''Victim Sex Distribution''"]
  note kept_loaded = rendering_keeps_frames [where w = empty_world and a = stable_argsort
        and selected_key = "''victim_demographics''" and fs = demo_fs and base_dir = "''/app''"]
  have "frame_at (snd (main_dashboard stable_argsort (Some demo_data) ''victim_demographics''
                       demo_world)) 6 = weapons"
    and "frame_at (snd (plot_bar_chart stable_argsort 6 ''Victim Race Distribution''
                       ''key'' ''value'' ''key'' demo_world)) 6 = weapons"
    and "frame_at (snd (plot_pie_chart 9 ''Victim Sex Distribution'' demo_world)) 6 = weapons"
    using kept h by (simp_all add: at)
  moreover have "frame_at (snd (main_dashboard stable_argsort (Some demo_data)
                       ''victim_demographics'' demo_world)) 9 = sex_long"
    using kept_loaded demo_load ref by (simp add: at)
  ultimately show ?thesis
    using h demo_load ref by (intro conjI)
qed

subsection \<open>What the views draw\<close>

lemma emit_run: "emit x w = (Returned (), w\<lparr>screen := screen w @ [x]\<rparr>)"
  by (simp add: emit_def)

lemma ranked_parts:
  assumes "ranked a t y = Inr out"
  shows "\<exists>s. sort_values a t y = Inr s \<and> out = head s 20 \<and> columns out = columns t
           \<and> y \<in> set (columns t)"
proof -
  obtain s where s: "sort_values a t y = Inr s" and out: "out = head s 20"
    using assms by (auto simp: ranked_def split: sum.splits)
  obtain j where j: "get_loc (columns t) y = Some j"
    using s by (auto simp: sort_values_def split: option.splits)
  have mem: "get_loc cs y = Some i \<Longrightarrow> y \<in> set cs" for cs i
    by (induction cs arbitrary: i) (auto split: if_splits)
  have "columns s = columns t"
    using s by (auto simp: sort_values_def split: option.splits if_splits)
  then show ?thesis
    using s out mem [OF j] by (simp add: head_def)
qed

lemma plot_bar_chart_run:
  assumes "ranked a (frame_at w df) y = Inr out"
    and "x \<in> set (columns (frame_at w df))" and "color \<in> set (columns (frame_at w df))"
  shows "\<exists>w1. plot_bar_chart a df title x y color w = (Returned (), w1)
           \<and> screen w1 = screen w @ [PlotlyChart (Bar out x y color title), DataFrame out True]"
proof -
  obtain s where s: "sort_values a (frame_at w df) y = Inr s" and out: "out = head s 20"
    and cols: "columns out = columns (frame_at w df)" and y: "y \<in> set (columns (frame_at w df))"
    using ranked_parts [OF assms(1)] by blast
  define w1 where "w1 = w\<lparr>heap := heap w @ [s]\<rparr>"
  define w2 where "w2 = w1\<lparr>heap := heap w1 @ [out]\<rparr>"
  have step1: "df_sort_values a df y w = (Returned (length (heap w)), w1)"
    by (simp add: df_sort_values_def s new_frame_def w1_def)
  have step2: "df_head (length (heap w)) 20 w1 = (Returned (length (heap w1)), w2)"
    by (simp add: df_head_def new_frame_def w1_def w2_def frame_at_def out)
  have at: "frame_at w2 (length (heap w1)) = out"
    by (simp add: w2_def frame_at_def)
  have step3: "px_bar (length (heap w1)) x y color title w2 = (Returned (Bar out x y color title), w2)"
    using assms(2,3) y by (simp add: px_bar_def at cols)
  have step4: "st_plotly_chart (Bar out x y color title) w2
             = (Returned (), w2\<lparr>screen := screen w2 @ [PlotlyChart (Bar out x y color title)]\<rparr>)"
    by (simp add: st_plotly_chart_def emit_def)
  have step5: "st_dataframe (length (heap w1)) True
                 (w2\<lparr>screen := screen w2 @ [PlotlyChart (Bar out x y color title)]\<rparr>)
             = (Returned (), w2\<lparr>screen := screen w2 @ [PlotlyChart (Bar out x y color title),
                                                       DataFrame out True]\<rparr>)"
    using at by (simp add: st_dataframe_def emit_def frame_at_def)
  have "plot_bar_chart a df title x y color w
      = (Returned (), w2\<lparr>screen := screen w2 @ [PlotlyChart (Bar out x y color title),
                                                DataFrame out True]\<rparr>)"
    unfolding plot_bar_chart_def
    by (simp add: and_then_def step1 step2 step3 step4 step5)
  then show ?thesis
    by (simp add: w2_def w1_def)
qed

lemma plot_pie_chart_run:
  assumes "''Category'' \<in> set (columns (frame_at w df))"
    and "''Count'' \<in> set (columns (frame_at w df))"
  shows "\<exists>w1. plot_pie_chart df title w = (Returned (), w1)
           \<and> screen w1 = screen w @ [PlotlyChart (Pie (frame_at w df) ''Category'' ''Count'' title),
                                     DataFrame (frame_at w df) False]"
  using assms
  by (simp add: plot_pie_chart_def and_then_def px_pie_def st_plotly_chart_def emit_def
      st_dataframe_def frame_at_def)

lemma bar_of_run:
  assumes "bar_view a w data key = Some out"
  shows "\<exists>w1. bar_of a data key title w = (Returned (), w1)
           \<and> screen w1 = screen w @ [PlotlyChart (Bar out ''key'' ''value'' ''key'' title),
                                     DataFrame out True]"
proof -
  obtain df where df: "map_of data key = Some df"
    and k: "''key'' \<in> set (columns (frame_at w df))"
    and r: "ranked a (frame_at w df) ''value'' = Inr out"
    using assms by (auto simp: bar_view_def split: option.splits if_splits sum.splits)
  have "dict_get data key w = (Returned df, w)"
    by (simp add: dict_get_def df return_def)
  then have "bar_of a data key title w = plot_bar_chart a df title ''key'' ''value'' ''key'' w"
    by (simp add: bar_of_def and_then_def)
  then show ?thesis
    using plot_bar_chart_run [OF r k k, of title] by simp
qed

lemma pie_of_run:
  assumes "pie_view w data key = Some t"
  shows "\<exists>w1. pie_of data key title w = (Returned (), w1)
           \<and> screen w1 = screen w @ [PlotlyChart (Pie t ''Category'' ''Count'' title),
                                     DataFrame t False]"
proof -
  obtain df where df: "map_of data key = Some df"
    and c: "''Category'' \<in> set (columns (frame_at w df))" "''Count'' \<in> set (columns (frame_at w df))"
    and t: "t = frame_at w df"
    using assms by (auto simp: pie_view_def split: option.splits if_splits)
  have "dict_get data key w = (Returned df, w)"
    by (simp add: dict_get_def df return_def)
  then have "pie_of data key title w = plot_pie_chart df title w"
    by (simp add: pie_of_def and_then_def)
  then show ?thesis
    using plot_pie_chart_run [OF c, of title] by (simp add: t)
qed

text \<open>A view that was ready stays ready while frames are only added.\<close>

lemma frame_kept:
  assumes "prefix (heap w) (heap w1)" and "df < length (heap w)"
  shows "frame_at w1 df = frame_at w df" and "df < length (heap w1)"
  using assms by (auto simp: prefix_def frame_at_def nth_append)

lemma bar_view_kept:
  assumes "prefix (heap w) (heap w1)" and "bar_view a w data key = Some out"
  shows "bar_view a w1 data key = Some out"
proof -
  obtain df where df: "map_of data key = Some df" and v: "df < length (heap w)"
    using assms(2) by (auto simp: bar_view_def split: option.splits if_splits)
  show ?thesis
    using assms(2) v frame_kept [OF assms(1) v] by (simp add: bar_view_def df split: if_splits)
qed

lemma pie_view_kept:
  assumes "prefix (heap w) (heap w1)" and "pie_view w data key = Some t"
  shows "pie_view w1 data key = Some t"
proof -
  obtain df where df: "map_of data key = Some df" and v: "df < length (heap w)"
    using assms(2) by (auto simp: pie_view_def split: option.splits if_splits)
  show ?thesis
    using assms(2) v frame_kept [OF assms(1) v] by (simp add: pie_view_def df split: if_splits)
qed

lemma run_prefix:
  assumes "only_adds_frames m" and "m w = (r, w1)"
  shows "prefix (heap w) (heap w1)"
  using assms by (auto simp: only_adds_frames_def dest: spec [of _ w])


lemma demographic_view_run:
  assumes "bar_view a w data race = Some r" and "bar_view a w data eth = Some e"
    and "pie_view w data sex = Some s"
  shows "\<exists>w'. and_then (emit (Header h)) (\<lambda>_.
               and_then (emit (Caption c)) (\<lambda>_.
               and_then (emit (Subheader s1)) (\<lambda>_.
               and_then (bar_of a data race t1) (\<lambda>_.
               and_then (emit (Subheader s2)) (\<lambda>_.
               and_then (bar_of a data eth t2) (\<lambda>_.
               and_then (emit (Subheader s3)) (\<lambda>_.
               pie_of data sex t3))))))) w = (Returned (), w')
           \<and> screen w' = screen w @
                [Header h, Caption c, Subheader s1,
                 PlotlyChart (Bar r ''key'' ''value'' ''key'' t1), DataFrame r True,
                 Subheader s2,
                 PlotlyChart (Bar e ''key'' ''value'' ''key'' t2), DataFrame e True,
                 Subheader s3,
                 PlotlyChart (Pie s ''Category'' ''Count'' t3), DataFrame s False]"
proof -
  define w1 where "w1 = w\<lparr>screen := screen w @ [Header h, Caption c, Subheader s1]\<rparr>"
  have p1: "prefix (heap w) (heap w1)"
    by (simp add: w1_def)
  obtain w2 where run2: "bar_of a data race t1 w1 = (Returned (), w2)"
    and scr2: "screen w2 = screen w1 @ [PlotlyChart (Bar r ''key'' ''value'' ''key'' t1), DataFrame r True]"
    using bar_of_run [OF bar_view_kept [OF p1 assms(1)]] by blast
  have p2: "prefix (heap w) (heap w2)"
    using p1 run_prefix [OF adds_bar_of run2] by (rule prefix_order.trans)
  define w3 where "w3 = w2\<lparr>screen := screen w2 @ [Subheader s2]\<rparr>"
  have p3: "prefix (heap w) (heap w3)"
    using p2 by (simp add: w3_def)
  obtain w4 where run4: "bar_of a data eth t2 w3 = (Returned (), w4)"
    and scr4: "screen w4 = screen w3 @ [PlotlyChart (Bar e ''key'' ''value'' ''key'' t2), DataFrame e True]"
    using bar_of_run [OF bar_view_kept [OF p3 assms(2)]] by blast
  have p4: "prefix (heap w) (heap w4)"
    using p3 run_prefix [OF adds_bar_of run4] by (rule prefix_order.trans)
  define w5 where "w5 = w4\<lparr>screen := screen w4 @ [Subheader s3]\<rparr>"
  have p5: "prefix (heap w) (heap w5)"
    using p4 by (simp add: w5_def)
  obtain w6 where run6: "pie_of data sex t3 w5 = (Returned (), w6)"
    and scr6: "screen w6 = screen w5 @ [PlotlyChart (Pie s ''Category'' ''Count'' t3), DataFrame s False]"
    using pie_of_run [OF pie_view_kept [OF p5 assms(3)]] by blast
  have e1: "emit (Header h) w = (Returned (), w\<lparr>screen := screen w @ [Header h]\<rparr>)"
    by (rule emit_run)
  have e2: "emit (Caption c) (w\<lparr>screen := screen w @ [Header h]\<rparr>)
          = (Returned (), w\<lparr>screen := screen w @ [Header h, Caption c]\<rparr>)"
    by (simp add: emit_def)
  have e3: "emit (Subheader s1) (w\<lparr>screen := screen w @ [Header h, Caption c]\<rparr>) = (Returned (), w1)"
    by (simp add: emit_def w1_def)
  have e4: "emit (Subheader s2) w2 = (Returned (), w3)"
    by (simp add: emit_def w3_def)
  have e5: "emit (Subheader s3) w4 = (Returned (), w5)"
    by (simp add: emit_def w5_def)
  have "and_then (emit (Header h)) (\<lambda>_.
               and_then (emit (Caption c)) (\<lambda>_.
               and_then (emit (Subheader s1)) (\<lambda>_.
               and_then (bar_of a data race t1) (\<lambda>_.
               and_then (emit (Subheader s2)) (\<lambda>_.
               and_then (bar_of a data eth t2) (\<lambda>_.
               and_then (emit (Subheader s3)) (\<lambda>_.
               pie_of data sex t3))))))) w = (Returned (), w6)"
    by (simp add: and_then_def e1 e2 e3 run2 e4 run4 e5 run6)
  moreover have "screen w6 = screen w @
                [Header h, Caption c, Subheader s1,
                 PlotlyChart (Bar r ''key'' ''value'' ''key'' t1), DataFrame r True,
                 Subheader s2,
                 PlotlyChart (Bar e ''key'' ''value'' ''key'' t2), DataFrame e True,
                 Subheader s3,
                 PlotlyChart (Pie s ''Category'' ''Count'' t3), DataFrame s False]"
    by (simp add: scr6 w5_def scr4 w3_def scr2 w1_def)
  ultimately show ?thesis
    by (intro exI conjI)
qed

lemma drawn_append: "screen w' = screen w @ xs \<Longrightarrow> drawn w w' = xs"
  by (simp add: drawn_def)


text \<open>
  Claim C6. For each of the two demographic views, when the three tables it needs can be
  charted, the dashboard draws exactly three charts, taken from the registry: the race
  table as a ranked bar chart, the ethnicity table as a ranked bar chart and the sex table
  as a pie chart, each followed by its table.
\<close>

theorem demographic_views:
  assumes "data \<noteq> []"
  shows "(\<forall>r e s. bar_view a w data ''victim_race'' = Some r
             \<and> bar_view a w data ''victim_ethnicity'' = Some e
             \<and> pie_view w data ''victim_sex'' = Some s \<longrightarrow>
          (\<exists>w'. main_dashboard a (Some data) ''victim_demographics'' w = (Returned (), w')
             \<and> drawn w w' =
                 [Header ''Victim Demographics'',
                  Caption ''Breakdown of victim demographics by race, ethnicity, and sex.'',
                  Subheader ''Victim Race'',
                  PlotlyChart (Bar r ''key'' ''value'' ''key'' ''Victim Race Distribution''),
                  DataFrame r True,
                  Subheader ''Victim Ethnicity'',
                  PlotlyChart (Bar e ''key'' ''value'' ''key'' ''Victim Ethnicity Distribution''),
                  DataFrame e True,
                  Subheader ''Victim Sex'',
                  PlotlyChart (Pie s ''Category'' ''Count'' ''Victim Sex Distribution''),
                  DataFrame s False]
             \<and> charts (drawn w w') =
                 [Bar r ''key'' ''value'' ''key'' ''Victim Race Distribution'',
                  Bar e ''key'' ''value'' ''key'' ''Victim Ethnicity Distribution'',
                  Pie s ''Category'' ''Count'' ''Victim Sex Distribution'']))
       \<and> (\<forall>r e s. bar_view a w data ''offender_race'' = Some r
             \<and> bar_view a w data ''offender_ethnicity'' = Some e
             \<and> pie_view w data ''offender_sex'' = Some s \<longrightarrow>
          (\<exists>w'. main_dashboard a (Some data) ''offender_demographics'' w = (Returned (), w')
             \<and> drawn w w' =
                 [Header ''Offender Demographics'',
                  Caption ''Breakdown of offender demographics by race, ethnicity, and sex.'',
                  Subheader ''Offender Race'',
                  PlotlyChart (Bar r ''key'' ''value'' ''key'' ''Offender Race Distribution''),
                  DataFrame r True,
                  Subheader ''Offender Ethnicity'',
                  PlotlyChart (Bar e ''key'' ''value'' ''key'' ''Offender Ethnicity Distribution''),
                  DataFrame e True,
                  Subheader ''Offender Sex'',
                  PlotlyChart (Pie s ''Category'' ''Count'' ''Offender Sex Distribution''),
                  DataFrame s False]
             \<and> charts (drawn w w') =
                 [Bar r ''key'' ''value'' ''key'' ''Offender Race Distribution'',
                  Bar e ''key'' ''value'' ''key'' ''Offender Ethnicity Distribution'',
                  Pie s ''Category'' ''Count'' ''Offender Sex Distribution'']))"
proof (intro conjI allI impI)
  fix r e s
  assume ready: "bar_view a w data ''victim_race'' = Some r
             \<and> bar_view a w data ''victim_ethnicity'' = Some e
             \<and> pie_view w data ''victim_sex'' = Some s"
  obtain w' where run: "main_dashboard a (Some data) ''victim_demographics'' w = (Returned (), w')"
    and scr: "screen w' = screen w @
                 [Header ''Victim Demographics'',
                  Caption ''Breakdown of victim demographics by race, ethnicity, and sex.'',
                  Subheader ''Victim Race'',
                  PlotlyChart (Bar r ''key'' ''value'' ''key'' ''Victim Race Distribution''),
                  DataFrame r True,
                  Subheader ''Victim Ethnicity'',
                  PlotlyChart (Bar e ''key'' ''value'' ''key'' ''Victim Ethnicity Distribution''),
                  DataFrame e True,
                  Subheader ''Victim Sex'',
                  PlotlyChart (Pie s ''Category'' ''Count'' ''Victim Sex Distribution''),
                  DataFrame s False]"
    using demographic_view_run [where a = a and w = w and data = data and race = "''victim_race''"
        and eth = "''victim_ethnicity''" and sex = "''victim_sex''" and r = r and e = e and s = s]
      ready assms
    by (simp add: main_dashboard_def) blast
  show "\<exists>w'. main_dashboard a (Some data) ''victim_demographics'' w = (Returned (), w')
             \<and> drawn w w' =
                 [Header ''Victim Demographics'',
                  Caption ''Breakdown of victim demographics by race, ethnicity, and sex.'',
                  Subheader ''Victim Race'',
                  PlotlyChart (Bar r ''key'' ''value'' ''key'' ''Victim Race Distribution''),
                  DataFrame r True,
                  Subheader ''Victim Ethnicity'',
                  PlotlyChart (Bar e ''key'' ''value'' ''key'' ''Victim Ethnicity Distribution''),
                  DataFrame e True,
                  Subheader ''Victim Sex'',
                  PlotlyChart (Pie s ''Category'' ''Count'' ''Victim Sex Distribution''),
                  DataFrame s False]
             \<and> charts (drawn w w') =
                 [Bar r ''key'' ''value'' ''key'' ''Victim Race Distribution'',
                  Bar e ''key'' ''value'' ''key'' ''Victim Ethnicity Distribution'',
                  Pie s ''Category'' ''Count'' ''Victim Sex Distribution'']"
    using run by (simp add: drawn_append [OF scr])
next
  fix r e s
  assume ready: "bar_view a w data ''offender_race'' = Some r
             \<and> bar_view a w data ''offender_ethnicity'' = Some e
             \<and> pie_view w data ''offender_sex'' = Some s"
  obtain w' where run: "main_dashboard a (Some data) ''offender_demographics'' w = (Returned (), w')"
    and scr: "screen w' = screen w @
                 [Header ''Offender Demographics'',
                  Caption ''Breakdown of offender demographics by race, ethnicity, and sex.'',
                  Subheader ''Offender Race'',
                  PlotlyChart (Bar r ''key'' ''value'' ''key'' ''Offender Race Distribution''),
                  DataFrame r True,
                  Subheader ''Offender Ethnicity'',
                  PlotlyChart (Bar e ''key'' ''value'' ''key'' ''Offender Ethnicity Distribution''),
                  DataFrame e True,
                  Subheader ''Offender Sex'',
                  PlotlyChart (Pie s ''Category'' ''Count'' ''Offender Sex Distribution''),
                  DataFrame s False]"
    using demographic_view_run [where a = a and w = w and data = data and race = "''offender_race''"
        and eth = "''offender_ethnicity''" and sex = "''offender_sex''" and r = r and e = e and s = s]
      ready assms
    by (simp add: main_dashboard_def) blast
  show "\<exists>w'. main_dashboard a (Some data) ''offender_demographics'' w = (Returned (), w')
             \<and> drawn w w' =
                 [Header ''Offender Demographics'',
                  Caption ''Breakdown of offender demographics by race, ethnicity, and sex.'',
                  Subheader ''Offender Race'',
                  PlotlyChart (Bar r ''key'' ''value'' ''key'' ''Offender Race Distribution''),
                  DataFrame r True,
                  Subheader ''Offender Ethnicity'',
                  PlotlyChart (Bar e ''key'' ''value'' ''key'' ''Offender Ethnicity Distribution''),
                  DataFrame e True,
                  Subheader ''Offender Sex'',
                  PlotlyChart (Pie s ''Category'' ''Count'' ''Offender Sex Distribution''),
                  DataFrame s False]
             \<and> charts (drawn w w') =
                 [Bar r ''key'' ''value'' ''key'' ''Offender Race Distribution'',
                  Bar e ''key'' ''value'' ''key'' ''Offender Ethnicity Distribution'',
                  Pie s ''Category'' ''Count'' ''Offender Sex Distribution'']"
    using run by (simp add: drawn_append [OF scr])
qed

theorem demographic_views_witness:
  "demo_data \<noteq> []
   \<and> bar_view stable_argsort demo_world demo_data ''victim_race'' = Some weapons_ranked
   \<and> bar_view stable_argsort demo_world demo_data ''victim_ethnicity'' = Some weapons_ranked
   \<and> pie_view demo_world demo_data ''victim_sex'' = Some sex_long
   \<and> (\<exists>w'. main_dashboard stable_argsort (Some demo_data) ''victim_demographics'' demo_world
              = (Returned (), w')
          \<and> charts (drawn demo_world w') =
               [Bar weapons_ranked ''key'' ''value'' ''key'' ''Victim Race Distribution'',
                Bar weapons_ranked ''key'' ''value'' ''key'' ''Victim Ethnicity Distribution'',
                Pie sex_long ''Category'' ''Count'' ''Victim Sex Distribution''])
   \<and> bar_view stable_argsort demo_world demo_data ''offender_race'' = Some weapons_ranked
   \<and> bar_view stable_argsort demo_world demo_data ''offender_ethnicity'' = Some weapons_ranked
   \<and> pie_view demo_world demo_data ''offender_sex'' = Some sex_long
   \<and> (\<exists>w'. main_dashboard stable_argsort (Some demo_data) ''offender_demographics'' demo_world
              = (Returned (), w')
          \<and> charts (drawn demo_world w') =
               [Bar weapons_ranked ''key'' ''value'' ''key'' ''Offender Race Distribution'',
                Bar weapons_ranked ''key'' ''value'' ''key'' ''Offender Ethnicity Distribution'',
                Pie sex_long ''Category'' ''Count'' ''Offender Sex Distribution''])"
proof -
  have ne: "demo_data \<noteq> []"
    by (simp add: demo_data_def)
  note views = demographic_views [OF ne, of stable_argsort demo_world]
  have victim: "\<exists>w'. main_dashboard stable_argsort (Some demo_data) ''victim_demographics'' demo_world
              = (Returned (), w')
          \<and> charts (drawn demo_world w') =
               [Bar weapons_ranked ''key'' ''value'' ''key'' ''Victim Race Distribution'',
                Bar weapons_ranked ''key'' ''value'' ''key'' ''Victim Ethnicity Distribution'',
                Pie sex_long ''Category'' ''Count'' ''Victim Sex Distribution'']"
    using views [THEN conjunct1, rule_format, of weapons_ranked weapons_ranked sex_long]
      demo_bar_views(5,7) demo_pie_views(1)
    by auto
  have offender: "\<exists>w'. main_dashboard stable_argsort (Some demo_data) ''offender_demographics'' demo_world
              = (Returned (), w')
          \<and> charts (drawn demo_world w') =
               [Bar weapons_ranked ''key'' ''value'' ''key'' ''Offender Race Distribution'',
                Bar weapons_ranked ''key'' ''value'' ''key'' ''Offender Ethnicity Distribution'',
                Pie sex_long ''Category'' ''Count'' ''Offender Sex Distribution'']"
    using views [THEN conjunct2, rule_format, of weapons_ranked weapons_ranked sex_long]
      demo_bar_views(6,8) demo_pie_views(2)
    by auto
  show ?thesis
    using ne victim offender demo_bar_views(5-8) demo_pie_views by (intro conjI)
qed






end
